theory Spec2Isabelle
  imports Main "HOL-Library.Word" "HOL-Library.Char_ord" "HOL-Library.List_Lexorder"
begin

unbundle bit_operations_syntax

section \<open>Basic types of the HomeStore backend\<close>

text \<open>
  The identifiers of \<^verbatim>\<open>hs_homeobject.hpp\<close> and \<^verbatim>\<open>hs_pg_manager.cpp\<close>:
  \<^verbatim>\<open>pg_id_t\<close> and \<^verbatim>\<open>homestore::chunk_num_t\<close> are 16-bit, \<^verbatim>\<open>blob_id_t\<close> is 64-bit,
  \<^verbatim>\<open>peer_id_t\<close>, \<^verbatim>\<open>group_id_t\<close> and \<^verbatim>\<open>homestore::uuid_t\<close> are 128-bit UUIDs
  (\<^verbatim>\<open>boost::uuids::uuid\<close>, sixteen raw bytes, the first byte the most significant).
\<close>

type_synonym byte = "8 word"
type_synonym pg_id_t = "16 word"
type_synonym chunk_num_t = "16 word"
type_synonym blob_id_t = "64 word"
type_synonym uuid_t = "128 word"
type_synonym peer_id_t = uuid_t
type_synonym group_id_t = uuid_t

text \<open>
  What ends the process or leaves defined behaviour: a failed \<^verbatim>\<open>RELEASE_ASSERT\<close> or
  \<^verbatim>\<open>DEBUG_ASSERT\<close> (with its message), an exception nobody catches, an integer division
  by zero, an access outside a buffer.
\<close>

datatype fault =
    AssertFailed string
  | UncaughtException string
  | DivisionByZero
  | OutOfBounds

section \<open>Error codes\<close>

text \<open>
  \<^verbatim>\<open>homestore::ReplServiceError\<close> is declared by the replication service, outside the
  sources; these are the enumerators \<^verbatim>\<open>toPgError\<close> names in its \<^verbatim>\<open>switch\<close>.
  \<open>UNLISTED c\<close> stands for any enumerator with code \<open>c\<close> that the \<^verbatim>\<open>switch\<close> has no
  \<^verbatim>\<open>case\<close> for (the commented-out \<^verbatim>\<open>CRC_MISMATCH\<close> among them): control then leaves
  the \<^verbatim>\<open>switch\<close> and reaches the final \<^verbatim>\<open>return\<close>.
\<close>

datatype ReplServiceError =
    OK
  | BAD_REQUEST
  | CANCELLED
  | CONFIG_CHANGING
  | SERVER_ALREADY_EXISTS
  | SERVER_IS_JOINING
  | SERVER_IS_LEAVING
  | RESULT_NOT_EXIST_YET
  | TERM_MISMATCH
  | NOT_IMPLEMENTED
  | NOT_LEADER
  | CANNOT_REMOVE_LEADER
  | TIMEOUT
  | SERVER_NOT_FOUND
  | NO_SPACE_LEFT
  | DRIVE_WRITE_ERROR
  | RETRY_REQUEST
  | FAILED
  | UNLISTED int

text \<open>
  Modelled from the spec: \<^verbatim>\<open>PGError\<close> is declared in \<^verbatim>\<open>homeobject/pg_manager.hpp\<close>,
  which is not among the sources; section 7 of the specification lists its kinds.
\<close>

datatype PGError =
    PG_INVALID_ARG
  | PG_UNKNOWN_PG
  | PG_UNKNOWN_PEER
  | PG_NOT_LEADER
  | PG_TIMEOUT
  | PG_NO_SPACE_LEFT
  | PG_DRIVE_WRITE_ERROR
  | PG_RETRY_REQUEST
  | PG_CRC_MISMATCH
  | PG_UNKNOWN

text \<open>
  \<^verbatim>\<open>toPgError\<close> (hs_pg_manager.cpp, lines 9 to 53). \<^verbatim>\<open>DEBUG_ASSERT\<close> is compiled in
  debug builds only, so the build kind is an argument: on \<open>OK\<close> a debug build stops at
  the assertion and a release build falls through to \<^verbatim>\<open>FAILED\<close>'s \<^verbatim>\<open>return\<close>.
\<close>

fun toPgError :: "bool \<Rightarrow> ReplServiceError \<Rightarrow> fault + PGError" where
  "toPgError dbg BAD_REQUEST = Inr PG_INVALID_ARG"
| "toPgError dbg CANCELLED = Inr PG_INVALID_ARG"
| "toPgError dbg CONFIG_CHANGING = Inr PG_INVALID_ARG"
| "toPgError dbg SERVER_ALREADY_EXISTS = Inr PG_INVALID_ARG"
| "toPgError dbg SERVER_IS_JOINING = Inr PG_INVALID_ARG"
| "toPgError dbg SERVER_IS_LEAVING = Inr PG_INVALID_ARG"
| "toPgError dbg RESULT_NOT_EXIST_YET = Inr PG_INVALID_ARG"
| "toPgError dbg TERM_MISMATCH = Inr PG_INVALID_ARG"
| "toPgError dbg NOT_IMPLEMENTED = Inr PG_INVALID_ARG"
| "toPgError dbg NOT_LEADER = Inr PG_NOT_LEADER"
| "toPgError dbg CANNOT_REMOVE_LEADER = Inr PG_UNKNOWN_PEER"
| "toPgError dbg TIMEOUT = Inr PG_TIMEOUT"
| "toPgError dbg SERVER_NOT_FOUND = Inr PG_UNKNOWN_PG"
| "toPgError dbg NO_SPACE_LEFT = Inr PG_NO_SPACE_LEFT"
| "toPgError dbg DRIVE_WRITE_ERROR = Inr PG_DRIVE_WRITE_ERROR"
| "toPgError dbg RETRY_REQUEST = Inr PG_RETRY_REQUEST"
| "toPgError dbg OK =
     (if dbg then Inl (AssertFailed ''Should not process OK!'') else Inr PG_UNKNOWN)"
| "toPgError dbg FAILED = Inr PG_UNKNOWN"
| "toPgError dbg (UNLISTED c) = Inr PG_UNKNOWN"

section \<open>The on-disk data header\<close>

text \<open>
  \<^verbatim>\<open>HSHomeObject::DataHeader\<close> (hs_homeobject.hpp, lines 134 to 147), declared between
  \<^verbatim>\<open>#pragma pack(1)\<close> and \<^verbatim>\<open>#pragma pack()\<close>: a \<^verbatim>\<open>uint64_t magic\<close>, a
  \<^verbatim>\<open>uint8_t version\<close> and a \<^verbatim>\<open>data_type_t type\<close> whose underlying type is
  \<^verbatim>\<open>uint32_t\<close>.
\<close>

datatype data_type_t = SHARD_INFO | BLOB_INFO

fun data_type_code :: "data_type_t \<Rightarrow> 32 word" where
  "data_type_code SHARD_INFO = 1"
| "data_type_code BLOB_INFO = 2"

definition data_header_version :: "8 word" where
  "data_header_version = 0x01"

definition data_header_magic :: "64 word" where
  "data_header_magic = 0x21fdffdba8d68fc6"

record DataHeader =
  dh_magic :: "64 word"
  dh_version :: "8 word"
  dh_type :: data_type_t

text \<open>The default member initialisers: a fresh header.\<close>

definition DataHeader_init :: DataHeader where
  "DataHeader_init =
     \<lparr>dh_magic = data_header_magic, dh_version = data_header_version, dh_type = BLOB_INFO\<rparr>"

definition valid :: "DataHeader \<Rightarrow> bool" where
  "valid h \<longleftrightarrow> dh_magic h = data_header_magic \<and> dh_version h \<le> data_header_version"

text \<open>
  The bytes of a packed structure are the bytes of its members in declaration order,
  with no padding; an integer of \<open>n\<close> bytes is stored least significant byte first.
\<close>

definition le_bytes :: "nat \<Rightarrow> 'a::len word \<Rightarrow> byte list" where
  "le_bytes n w = map (\<lambda>i. ucast (drop_bit (8 * i) w)) [0..<n]"

definition DataHeader_bytes :: "DataHeader \<Rightarrow> byte list" where
  "DataHeader_bytes h =
     le_bytes 8 (dh_magic h) @ le_bytes 1 (dh_version h) @ le_bytes 4 (data_type_code (dh_type h))"

section \<open>Placement-group descriptions\<close>

text \<open>
  Modelled from the spec: \<^verbatim>\<open>PGMember\<close>, \<^verbatim>\<open>MemberSet\<close> and \<^verbatim>\<open>PGInfo\<close> are declared
  in \<^verbatim>\<open>homeobject/pg_manager.hpp\<close>, which is not among the sources. Section 3 of the
  specification gives a PG's attributes (id, size in bytes, chunk size, replica-set uuid,
  a set of members, each a peer id, a name and a 32-bit signed priority); the sources use
  exactly these fields (\<^verbatim>\<open>serialize_pg_info\<close>) and construct a \<^verbatim>\<open>PGInfo\<close> from a
  \<^verbatim>\<open>pg_id_t\<close> and a \<^verbatim>\<open>PGMember\<close> from a peer id alone, its priority then being 0.
\<close>

record PGMember =
  pm_id :: peer_id_t
  pm_name :: string
  pm_priority :: "32 word"

definition PGMember_of_id :: "peer_id_t \<Rightarrow> PGMember" where
  "PGMember_of_id u = \<lparr>pm_id = u, pm_name = [], pm_priority = 0\<rparr>"

record PGInfo =
  pi_id :: pg_id_t
  pi_size :: "64 word"
  pi_chunk_size :: "64 word"
  pi_replica_set_uuid :: peer_id_t
  pi_members :: "PGMember list"

definition PGInfo_of_id :: "pg_id_t \<Rightarrow> PGInfo" where
  "PGInfo_of_id i =
     \<lparr>pi_id = i, pi_size = 0, pi_chunk_size = 0, pi_replica_set_uuid = 0, pi_members = []\<rparr>"

text \<open>
  A \<^verbatim>\<open>std::set< PGMember >\<close> is the list of its elements in iteration order. Two members
  are equivalent when their peer ids have the same key (\<^verbatim>\<open>on_pg_replace_member\<close> erases
  a member by a \<^verbatim>\<open>PGMember\<close> built from the id alone); the key that orders the ids is the
  argument \<open>key\<close>. \<^verbatim>\<open>emplace\<close> leaves the set alone when an equivalent element is there.
\<close>

definition MemberSet_ok :: "(peer_id_t \<Rightarrow> nat) \<Rightarrow> PGMember list \<Rightarrow> bool" where
  "MemberSet_ok key ms \<longleftrightarrow> sorted_wrt (<) (map (\<lambda>m. key (pm_id m)) ms)"

definition emplace :: "(peer_id_t \<Rightarrow> nat) \<Rightarrow> PGMember \<Rightarrow> PGMember list \<Rightarrow> PGMember list" where
  "emplace key m ms = insort_insert_key (\<lambda>x. key (pm_id x)) m ms"

section \<open>JSON documents\<close>

text \<open>
  The values of \<^verbatim>\<open>nlohmann::json\<close> that the PG manager builds and reads: null, integers,
  strings, arrays and objects. An object is a \<^verbatim>\<open>std::map\<close> from strings, here the list
  of its entries in ascending key order. Numbers with a fraction or an exponent and the
  booleans are left out: \<^verbatim>\<open>serialize_pg_info\<close> never produces them.
\<close>

datatype json =
    JNull
  | JInt int
  | JString string
  | JArray "json list"
  | JObject "(string \<times> json) list"

text \<open>Insertion into the ordered entries of an object; an existing key is overwritten.\<close>

fun object_insert :: "string \<Rightarrow> json \<Rightarrow> (string \<times> json) list \<Rightarrow> (string \<times> json) list" where
  "object_insert k v [] = [(k, v)]"
| "object_insert k v ((k', v') # kvs) =
     (if k = k' then (k, v) # kvs
      else if k < k' then (k, v) # (k', v') # kvs
      else (k', v') # object_insert k v kvs)"

text \<open>
  \<^verbatim>\<open>j[key]\<close> on a json that is not \<^verbatim>\<open>const\<close>: null becomes an empty object first, a
  missing key is inserted with the value null, and anything but an object throws
  \<^verbatim>\<open>type_error\<close>. \<open>json_at\<close> is the value read there, \<open>json_assign\<close> is
  \<^verbatim>\<open>j[key] = v\<close>.
\<close>

fun json_at :: "json \<Rightarrow> string \<Rightarrow> fault + json" where
  "json_at JNull k = Inr JNull"
| "json_at (JObject kvs) k = (case map_of kvs k of None \<Rightarrow> Inr JNull | Some v \<Rightarrow> Inr v)"
| "json_at _ k = Inl (UncaughtException ''type_error.305'')"

fun json_assign :: "json \<Rightarrow> string \<Rightarrow> json \<Rightarrow> fault + json" where
  "json_assign JNull k v = Inr (JObject [(k, v)])"
| "json_assign (JObject kvs) k v = Inr (JObject (object_insert k v kvs))"
| "json_assign _ k v = Inl (UncaughtException ''type_error.305'')"

text \<open>
  \<^verbatim>\<open>j[key]\<close> on a \<^verbatim>\<open>const\<close> json (the loop variable of \<^verbatim>\<open>deserialize_pg_info\<close>): the
  key must be there, the library asserts it.
\<close>

fun json_at_const :: "json \<Rightarrow> string \<Rightarrow> fault + json" where
  "json_at_const (JObject kvs) k =
     (case map_of kvs k of None \<Rightarrow> Inl (AssertFailed ''key not found'') | Some v \<Rightarrow> Inr v)"
| "json_at_const _ k = Inl (UncaughtException ''type_error.305'')"

text \<open>\<^verbatim>\<open>push_back\<close>: null becomes an empty array first.\<close>

fun push_back :: "json \<Rightarrow> json \<Rightarrow> fault + json" where
  "push_back JNull v = Inr (JArray [v])"
| "push_back (JArray xs) v = Inr (JArray (xs @ [v]))"
| "push_back _ v = Inl (UncaughtException ''type_error.308'')"

text \<open>
  The elements a range-based \<^verbatim>\<open>for\<close> visits: none for null, the elements of an array,
  the values of an object, and the value itself for a number or a string.
\<close>

fun json_items :: "json \<Rightarrow> json list" where
  "json_items JNull = []"
| "json_items (JArray xs) = xs"
| "json_items (JObject kvs) = map snd kvs"
| "json_items j = [j]"

text \<open>
  \<^verbatim>\<open>get< T >()\<close> for an integer type \<open>T\<close> converts the stored number with
  \<^verbatim>\<open>static_cast\<close>, that is modulo \<open>2 ^ LENGTH('a)\<close>; \<^verbatim>\<open>get< std::string >()\<close> wants a
  string. Any other kind of value throws \<^verbatim>\<open>type_error\<close>.
\<close>

fun get_integer :: "json \<Rightarrow> fault + 'a::len word" where
  "get_integer (JInt n) = Inr (word_of_int n)"
| "get_integer _ = Inl (UncaughtException ''type_error.302'')"

fun get_string :: "json \<Rightarrow> fault + string" where
  "get_string (JString s) = Inr s"
| "get_string _ = Inl (UncaughtException ''type_error.302'')"

text \<open>Sequencing of steps that may stop with a fault.\<close>

definition bindF :: "fault + 'a \<Rightarrow> ('a \<Rightarrow> fault + 'b) \<Rightarrow> fault + 'b" where
  "bindF m f = (case m of Inl e \<Rightarrow> Inl e | Inr x \<Rightarrow> f x)"

fun foldF :: "('a \<Rightarrow> 'b \<Rightarrow> fault + 'b) \<Rightarrow> 'a list \<Rightarrow> 'b \<Rightarrow> fault + 'b" where
  "foldF f [] acc = Inr acc"
| "foldF f (x # xs) acc = bindF (f x acc) (foldF f xs)"

section \<open>The PG superblock\<close>

text \<open>
  \<^verbatim>\<open>HSHomeObject::pg_members\<close> and \<^verbatim>\<open>HSHomeObject::pg_info_superblk\<close>
  (hs_homeobject.hpp, lines 70 to 132), both under \<^verbatim>\<open>#pragma pack(1)\<close>: the size of a
  structure is the sum of the sizes of its members. A \<^verbatim>\<open>pg_members\<close> is a 16-byte id,
  the 32 bytes of \<^verbatim>\<open>name\<close> and a 4-byte priority. A \<^verbatim>\<open>pg_info_superblk\<close> is a 2-byte
  id, two 4-byte counts, a 16-byte uuid, an 8-byte size, a 16-byte uuid, four 8-byte
  counters and the one byte of \<^verbatim>\<open>data[1]\<close>.
\<close>

definition max_name_len :: nat where
  "max_name_len = 32"

definition sizeof_pg_members :: nat where
  "sizeof_pg_members = 16 + max_name_len + 4"

definition sizeof_chunk_num_t :: nat where
  "sizeof_chunk_num_t = 2"

definition sizeof_pg_info_superblk :: nat where
  "sizeof_pg_info_superblk = 2 + 4 + 4 + 16 + 8 + 16 + 8 + 8 + 8 + 8 + 1"

text \<open>The offsets of the members of a \<^verbatim>\<open>pg_members\<close>.\<close>

definition offsetof_id :: nat where
  "offsetof_id = 0"

definition offsetof_name :: nat where
  "offsetof_name = 16"

definition offsetof_priority :: nat where
  "offsetof_priority = 16 + max_name_len"

text \<open>
  The fixed members are typed fields. \<open>sb_data\<close> is the memory from the address of
  \<^verbatim>\<open>data\<close> to the end of the buffer that holds the superblock: the variable-length
  trailer, as raw bytes.
\<close>

record pg_info_superblk =
  sb_id :: pg_id_t
  sb_num_members :: "32 word"
  sb_num_chunks :: "32 word"
  sb_replica_set_uuid :: peer_id_t
  sb_pg_size :: "64 word"
  sb_index_table_uuid :: uuid_t
  sb_blob_sequence_num :: blob_id_t
  sb_active_blob_count :: "64 word"
  sb_tombstone_blob_count :: "64 word"
  sb_total_occupied_blk_count :: "64 word"
  sb_data :: "byte list"

text \<open>
  \<^verbatim>\<open>size()\<close>: the sum is computed in \<^verbatim>\<open>size_t\<close> (64 bits), the operands
  \<^verbatim>\<open>num_members\<close> and \<^verbatim>\<open>num_chunks\<close> converted to it, and returned as \<^verbatim>\<open>uint32_t\<close>.
\<close>

definition size_superblk :: "pg_info_superblk \<Rightarrow> 32 word" where
  "size_superblk sb =
     ucast (word_of_nat sizeof_pg_info_superblk - 1
            + ucast (sb_num_members sb) * word_of_nat sizeof_pg_members
            + ucast (sb_num_chunks sb) * word_of_nat sizeof_chunk_num_t :: 64 word)"

text \<open>
  \<^verbatim>\<open>get_pg_members()\<close> and \<^verbatim>\<open>get_chunk_ids()\<close> (and their mutable twins) return
  pointers into \<^verbatim>\<open>data\<close>; the model returns the offset from \<^verbatim>\<open>data\<close>, in bytes. The
  product is again computed in \<^verbatim>\<open>size_t\<close>, where it cannot overflow.
\<close>

definition get_pg_members :: "pg_info_superblk \<Rightarrow> nat" where
  "get_pg_members sb = 0"

definition get_chunk_ids :: "pg_info_superblk \<Rightarrow> nat" where
  "get_chunk_ids sb = unat (sb_num_members sb) * sizeof_pg_members"

subsection \<open>Memory\<close>

text \<open>Reading and writing a range of a buffer; a range that leaves it is a fault.\<close>

definition read_bytes :: "byte list \<Rightarrow> nat \<Rightarrow> nat \<Rightarrow> fault + byte list" where
  "read_bytes buf off n =
     (if off + n \<le> length buf then Inr (take n (drop off buf)) else Inl OutOfBounds)"

definition write_bytes :: "byte list \<Rightarrow> nat \<Rightarrow> byte list \<Rightarrow> fault + byte list" where
  "write_bytes buf off bs =
     (if off + length bs \<le> length buf
      then Inr (take off buf @ bs @ drop (off + length bs) buf)
      else Inl OutOfBounds)"

text \<open>\<^verbatim>\<open>memcpy(dst + doff, src + soff, n)\<close>.\<close>

definition memcpy :: "byte list \<Rightarrow> nat \<Rightarrow> byte list \<Rightarrow> nat \<Rightarrow> nat \<Rightarrow> fault + byte list" where
  "memcpy dst doff src soff n = bindF (read_bytes src soff n) (write_bytes dst doff)"

text \<open>
  An integer is read back from its bytes, least significant first; a uuid is its sixteen
  bytes, most significant first.
\<close>

fun of_le_bytes :: "byte list \<Rightarrow> 'a::len word" where
  "of_le_bytes [] = 0"
| "of_le_bytes (b # bs) = ucast b OR push_bit 8 (of_le_bytes bs)"

definition uuid_bytes :: "uuid_t \<Rightarrow> byte list" where
  "uuid_bytes u = rev (le_bytes 16 u)"

definition uuid_of_bytes :: "byte list \<Rightarrow> uuid_t" where
  "uuid_of_bytes bs = of_le_bytes (rev bs)"

text \<open>
  \<^verbatim>\<open>strncpy(dst, src, n)\<close> writes exactly \<open>n\<close> bytes: the characters of the C string
  \<open>src\<close> (up to its first NUL) as far as they fit, then NULs. \<^verbatim>\<open>std::string(p)\<close> reads
  from \<open>p\<close> up to the first NUL, wherever that is; without one it leaves the buffer.
\<close>

definition c_str :: "string \<Rightarrow> byte list" where
  "c_str s = takeWhile (\<lambda>b. b \<noteq> 0) (map of_char s)"

definition strncpy :: "byte list \<Rightarrow> nat \<Rightarrow> byte list" where
  "strncpy src n = take n src @ replicate (n - length src) 0"

definition read_c_string :: "byte list \<Rightarrow> nat \<Rightarrow> fault + string" where
  "read_c_string buf off =
     (if 0 \<in> set (drop off buf)
      then Inr (map (\<lambda>b. char_of (unat b)) (takeWhile (\<lambda>b. b \<noteq> 0) (drop off buf)))
      else Inl OutOfBounds)"

subsection \<open>Assignment\<close>

text \<open>
  \<^verbatim>\<open>pg_info_superblk::operator=\<close> (lines 107 to 119): seven members are assigned, then
  the two arrays are copied with \<^verbatim>\<open>memcpy\<close>, their lengths and places taken from the
  counts just assigned. \<^verbatim>\<open>copy\<close> (line 121) and the copy constructor (line 105) are
  this assignment.
\<close>

definition assign_superblk :: "pg_info_superblk \<Rightarrow> pg_info_superblk \<Rightarrow> fault + pg_info_superblk" where
  "assign_superblk this rhs =
     (let t1 = this\<lparr>sb_id := sb_id rhs,
                     sb_num_members := sb_num_members rhs,
                     sb_num_chunks := sb_num_chunks rhs,
                     sb_pg_size := sb_pg_size rhs,
                     sb_replica_set_uuid := sb_replica_set_uuid rhs,
                     sb_index_table_uuid := sb_index_table_uuid rhs,
                     sb_blob_sequence_num := sb_blob_sequence_num rhs\<rparr>
      in bindF (memcpy (sb_data t1) (get_pg_members t1) (sb_data rhs) (get_pg_members rhs)
                  (sizeof_pg_members * unat (sb_num_members t1))) (\<lambda>d1.
         let t2 = t1\<lparr>sb_data := d1\<rparr>
         in bindF (memcpy (sb_data t2) (get_chunk_ids t2) (sb_data rhs) (get_chunk_ids rhs)
                     (sizeof_chunk_num_t * unat (sb_num_chunks t2))) (\<lambda>d2.
            Inr (t2\<lparr>sb_data := d2\<rparr>))))"

definition copy :: "pg_info_superblk \<Rightarrow> pg_info_superblk \<Rightarrow> fault + pg_info_superblk" where
  "copy this rhs = assign_superblk this rhs"

subsection \<open>The arrays of the trailer\<close>

text \<open>
  \<^verbatim>\<open>sb_members[i].id\<close>, \<^verbatim>\<open>.name\<close> and \<^verbatim>\<open>.priority\<close> are the bytes at
  \<open>get_pg_members + i * sizeof(pg_members)\<close> plus the member's offset; \<^verbatim>\<open>chunk_ids[i]\<close>
  is the two bytes at \<open>get_chunk_ids + i * sizeof(chunk_num_t)\<close>.
\<close>

definition member_at :: "pg_info_superblk \<Rightarrow> nat \<Rightarrow> nat" where
  "member_at sb i = get_pg_members sb + i * sizeof_pg_members"

definition chunk_at :: "pg_info_superblk \<Rightarrow> nat \<Rightarrow> nat" where
  "chunk_at sb i = get_chunk_ids sb + i * sizeof_chunk_num_t"

definition read_chunk_id :: "pg_info_superblk \<Rightarrow> nat \<Rightarrow> fault + chunk_num_t" where
  "read_chunk_id sb i =
     bindF (read_bytes (sb_data sb) (chunk_at sb i) sizeof_chunk_num_t) (\<lambda>bs. Inr (of_le_bytes bs))"

text \<open>
  The vector \<^verbatim>\<open>p_chunk_ids(get_chunk_ids(), get_chunk_ids() + num_chunks)\<close> of
  \<^verbatim>\<open>on_pg_meta_blk_found\<close> (line 310).
\<close>

fun read_chunk_ids :: "pg_info_superblk \<Rightarrow> nat \<Rightarrow> nat \<Rightarrow> fault + chunk_num_t list" where
  "read_chunk_ids sb i 0 = Inr []"
| "read_chunk_ids sb i (Suc n) =
     bindF (read_chunk_id sb i) (\<lambda>c.
     bindF (read_chunk_ids sb (Suc i) n) (\<lambda>cs. Inr (c # cs)))"

section \<open>The collaborators\<close>

text \<open>
  Modelled from the spec: the replication message header of
  \<^verbatim>\<open>replication_message.hpp\<close>, which is not among the sources. Section 6 of the
  specification: the header carries the message type, the payload size, the payload
  CRC and a seal marker over the preceding fields. \<^verbatim>\<open>seal()\<close> and \<^verbatim>\<open>corrupted()\<close>
  are arguments of the model (see \<open>env\<close>).
\<close>

datatype ReplicationMessageType =
    CREATE_PG_MSG
  | CREATE_SHARD_MSG
  | SEAL_SHARD_MSG
  | PUT_BLOB_MSG
  | DEL_BLOB_MSG

record ReplicationMessageHeader =
  msg_type :: ReplicationMessageType
  payload_size :: "32 word"
  payload_crc :: "32 word"
  seal_marker :: "32 word"

text \<open>
  The \<^verbatim>\<open>sisl::blob\<close> a commit handler receives: the message header, then the
  serialized payload (\<^verbatim>\<open>header.cbytes() + sizeof(ReplicationMessageHeader)\<close>).
\<close>

record header_blob =
  hb_header :: ReplicationMessageHeader
  hb_extn :: string

text \<open>
  Of a \<^verbatim>\<open>homestore::ReplDev\<close> the PG manager reads the group id; of a
  \<^verbatim>\<open>BlobIndexTable\<close> its uuid; of a \<^verbatim>\<open>homestore::repl_req_ctx\<close> whether this replica
  proposed the entry.
\<close>

record ReplDev =
  rd_group_id :: group_id_t

record BlobIndexTable =
  it_uuid :: uuid_t

record repl_req_ctx =
  is_proposer :: bool

text \<open>
  Everything the PG manager asks of code outside the sources, as arguments of the model.
  Nothing is assumed of them: a theorem holds for every \<open>env\<close>.
  \<^item> \<open>env_seal\<close>, \<open>env_corrupted\<close>: \<^verbatim>\<open>ReplicationMessageHeader::seal\<close> and
    \<^verbatim>\<open>corrupted\<close>; \<open>env_crc32_ieee\<close>: \<^verbatim>\<open>crc32_ieee(init_crc32, buf, size)\<close>.
  \<^item> \<open>env_dump\<close>, \<open>env_parse\<close>: \<^verbatim>\<open>nlohmann::json::dump\<close> and \<^verbatim>\<open>parse\<close>, which throw on
    text they cannot encode or read.
  \<^item> \<open>env_to_string\<close>, \<open>env_string_generator\<close>: \<^verbatim>\<open>boost::uuids::to_string\<close> and
    \<^verbatim>\<open>boost::uuids::string_generator\<close>; \<open>env_member_key\<close>: the key by which
    \<^verbatim>\<open>PGMember\<close> orders peer ids; \<open>env_random_generator\<close>: the uuid that
    \<^verbatim>\<open>boost::uuids::random_generator\<close> draws in this call.
  \<^item> \<open>env_create_repl_dev\<close>: the answer of \<^verbatim>\<open>ReplicationService::create_repl_dev\<close>;
    \<open>env_create_index_table\<close>: the table \<^verbatim>\<open>create_index_table()\<close> makes in this call;
    \<open>env_superblk_create\<close>: the superblock that \<^verbatim>\<open>superblk::create\<close> hands out for
    the given size, before the PG manager writes to it.
  \<^item> the operations of the \<^verbatim>\<open>HeapChunkSelector\<close> (heap_chunk_selector.h, not among the
    sources) on its state \<open>'cs\<close>: \<open>env_most_avail_num_chunks\<close>, \<open>env_get_chunk_size\<close>,
    \<open>env_select_chunks_for_pg\<close>, \<open>env_get_pg_chunks\<close> (\<open>None\<close> for \<^verbatim>\<open>nullptr\<close>) and
    \<open>env_recover_pg_chunks\<close>; those that change the selector return its new state.
  \<^item> \<open>env_debug_build\<close>: whether \<^verbatim>\<open>DEBUG_ASSERT\<close> is compiled in.
\<close>

record 'cs env =
  env_debug_build :: bool
  env_seal :: "ReplicationMessageHeader \<Rightarrow> ReplicationMessageHeader"
  env_corrupted :: "ReplicationMessageHeader \<Rightarrow> bool"
  env_crc32_ieee :: "string \<Rightarrow> 32 word"
  env_dump :: "json \<Rightarrow> fault + string"
  env_parse :: "string \<Rightarrow> fault + json"
  env_to_string :: "uuid_t \<Rightarrow> string"
  env_string_generator :: "string \<Rightarrow> fault + uuid_t"
  env_member_key :: "peer_id_t \<Rightarrow> nat"
  env_random_generator :: uuid_t
  env_create_repl_dev :: "group_id_t \<Rightarrow> peer_id_t set \<Rightarrow> ReplServiceError + ReplDev"
  env_create_index_table :: BlobIndexTable
  env_superblk_create :: "32 word \<Rightarrow> pg_info_superblk"
  env_most_avail_num_chunks :: "'cs \<Rightarrow> 32 word"
  env_get_chunk_size :: "'cs \<Rightarrow> 64 word"
  env_select_chunks_for_pg :: "'cs \<Rightarrow> pg_id_t \<Rightarrow> 64 word \<Rightarrow> 32 word option \<times> 'cs"
  env_get_pg_chunks :: "'cs \<Rightarrow> pg_id_t \<Rightarrow> chunk_num_t list option"
  env_recover_pg_chunks :: "'cs \<Rightarrow> pg_id_t \<Rightarrow> chunk_num_t list \<Rightarrow> bool \<times> 'cs"

section \<open>Serialization of a PGInfo\<close>

text \<open>
  \<^verbatim>\<open>HSHomeObject::serialize_pg_info\<close> (hs_pg_manager.cpp, lines 262 to 279). The member
  loop starts from \<^verbatim>\<open>nlohmann::json members_j{}\<close>, which is null; with no member it is
  still null when it is stored under \<^verbatim>\<open>"members"\<close>. A \<^verbatim>\<open>pg_id_t\<close> and the two sizes are
  stored as unsigned numbers, a priority as a signed one.
\<close>

definition member_to_json :: "'cs env \<Rightarrow> PGMember \<Rightarrow> fault + json" where
  "member_to_json env member =
     bindF (json_assign JNull ''member_id'' (JString (env_to_string env (pm_id member)))) (\<lambda>j1.
     bindF (json_assign j1 ''name'' (JString (pm_name member))) (\<lambda>j2.
     json_assign j2 ''priority'' (JInt (sint (pm_priority member)))))"

definition members_to_json :: "'cs env \<Rightarrow> PGMember list \<Rightarrow> fault + json" where
  "members_to_json env ms =
     foldF (\<lambda>member members_j. bindF (member_to_json env member) (push_back members_j)) ms JNull"

text \<open>\<^verbatim>\<open>j["pg_info"][key] = v\<close>.\<close>

definition json_assign2 :: "json \<Rightarrow> string \<Rightarrow> string \<Rightarrow> json \<Rightarrow> fault + json" where
  "json_assign2 j k1 k2 v =
     bindF (json_at j k1) (\<lambda>inner.
     bindF (json_assign inner k2 v) (\<lambda>inner'.
     json_assign j k1 inner'))"

definition pg_info_to_json :: "'cs env \<Rightarrow> PGInfo \<Rightarrow> fault + json" where
  "pg_info_to_json env pginfo =
     bindF (json_assign2 JNull ''pg_info'' ''pg_id_t'' (JInt (uint (pi_id pginfo)))) (\<lambda>j1.
     bindF (json_assign2 j1 ''pg_info'' ''pg_size'' (JInt (uint (pi_size pginfo)))) (\<lambda>j2.
     bindF (json_assign2 j2 ''pg_info'' ''chunk_size'' (JInt (uint (pi_chunk_size pginfo)))) (\<lambda>j3.
     bindF (json_assign2 j3 ''pg_info'' ''repl_uuid''
              (JString (env_to_string env (pi_replica_set_uuid pginfo)))) (\<lambda>j4.
     bindF (members_to_json env (pi_members pginfo)) (\<lambda>members_j.
     json_assign2 j4 ''pg_info'' ''members'' members_j)))))"

definition serialize_pg_info :: "'cs env \<Rightarrow> PGInfo \<Rightarrow> fault + string" where
  "serialize_pg_info env pginfo = bindF (pg_info_to_json env pginfo) (env_dump env)"

text \<open>
  \<^verbatim>\<open>HSHomeObject::deserialize_pg_info\<close> (hs_pg_manager.cpp, lines 281 to 297). The
  parsed document is not \<^verbatim>\<open>const\<close>, the loop variable \<^verbatim>\<open>m\<close> is. Every exception of the
  JSON library and of the uuid parser leaves the function.
\<close>

definition member_of_json :: "'cs env \<Rightarrow> json \<Rightarrow> fault + PGMember" where
  "member_of_json env m =
     bindF (json_at_const m ''member_id'') (\<lambda>jid.
     bindF (get_string jid) (\<lambda>uuid_str.
     bindF (env_string_generator env uuid_str) (\<lambda>u.
     bindF (json_at_const m ''name'') (\<lambda>jname.
     bindF (get_string jname) (\<lambda>nm.
     bindF (json_at_const m ''priority'') (\<lambda>jprio.
     bindF (get_integer jprio) (\<lambda>prio.
     Inr ((PGMember_of_id u)\<lparr>pm_name := nm, pm_priority := prio\<rparr>))))))))"

definition pg_info_of_json :: "'cs env \<Rightarrow> json \<Rightarrow> fault + PGInfo" where
  "pg_info_of_json env pg_json =
     bindF (json_at pg_json ''pg_info'') (\<lambda>p.
     bindF (json_at p ''pg_id_t'') (\<lambda>jid.
     bindF (get_integer jid) (\<lambda>i.
     bindF (json_at p ''pg_size'') (\<lambda>jsize.
     bindF (get_integer jsize) (\<lambda>sz.
     bindF (json_at p ''chunk_size'') (\<lambda>jchunk.
     bindF (get_integer jchunk) (\<lambda>csz.
     bindF (json_at p ''repl_uuid'') (\<lambda>juuid.
     bindF (get_string juuid) (\<lambda>uuid_str.
     bindF (env_string_generator env uuid_str) (\<lambda>u.
     bindF (json_at p ''members'') (\<lambda>jmembers.
     foldF (\<lambda>m pg_info.
              bindF (member_of_json env m) (\<lambda>member.
              Inr (pg_info\<lparr>pi_members := emplace (env_member_key env) member (pi_members pg_info)\<rparr>)))
       (json_items jmembers)
       ((PGInfo_of_id i)\<lparr>pi_size := sz, pi_chunk_size := csz, pi_replica_set_uuid := u\<rparr>))))))))))))"

definition deserialize_pg_info :: "'cs env \<Rightarrow> string \<Rightarrow> fault + PGInfo" where
  "deserialize_pg_info env json_str = bindF (env_parse env json_str) (pg_info_of_json env)"

text \<open>
  The document \<^verbatim>\<open>serialize_pg_info\<close> builds, written out: an object with the one key
  \<^verbatim>\<open>"pg_info"\<close>, whose five entries stand in key order.
\<close>

definition member_json :: "'cs env \<Rightarrow> PGMember \<Rightarrow> json" where
  "member_json env m =
     JObject [(''member_id'', JString (env_to_string env (pm_id m))),
              (''name'', JString (pm_name m)),
              (''priority'', JInt (sint (pm_priority m)))]"

definition members_json :: "'cs env \<Rightarrow> PGMember list \<Rightarrow> json" where
  "members_json env ms = (if ms = [] then JNull else JArray (map (member_json env) ms))"

definition pg_info_json :: "'cs env \<Rightarrow> PGInfo \<Rightarrow> json" where
  "pg_info_json env info =
     JObject [(''pg_info'', JObject
       [(''chunk_size'', JInt (uint (pi_chunk_size info))),
        (''members'', members_json env (pi_members info)),
        (''pg_id_t'', JInt (uint (pi_id info))),
        (''pg_size'', JInt (uint (pi_size info))),
        (''repl_uuid'', JString (env_to_string env (pi_replica_set_uuid info)))])]"

section \<open>The PG in memory\<close>

text \<open>
  Modelled from the spec: the base class \<^verbatim>\<open>PG\<close> is declared in
  \<^verbatim>\<open>lib/homeobject_impl.hpp\<close>, which is not among the sources. Section 3 of the
  specification gives a PG its durable counters (blob sequence number, active blobs,
  tombstones, occupied blocks); a PG that was just created has no blob, so they start
  at zero.
\<close>

record DurableEntities =
  de_blob_sequence_num :: blob_id_t
  de_active_blob_count :: "64 word"
  de_tombstone_blob_count :: "64 word"
  de_total_occupied_blk_count :: "64 word"

definition DurableEntities_init :: DurableEntities where
  "DurableEntities_init =
     \<lparr>de_blob_sequence_num = 0, de_active_blob_count = 0, de_tombstone_blob_count = 0,
      de_total_occupied_blk_count = 0\<rparr>"

text \<open>
  \<^verbatim>\<open>HSHomeObject::HS_PG\<close> (hs_homeobject.hpp, lines 172 to 243): the \<^verbatim>\<open>PGInfo\<close> and the
  counters of the base class, the superblock, the replication device and the index table
  (a \<^verbatim>\<open>shared_ptr\<close>, \<open>None\<close> while it is null).
\<close>

record HS_PG =
  hs_pg_info :: PGInfo
  hs_durable_entities :: DurableEntities
  hs_pg_sb :: pg_info_superblk
  hs_repl_dev :: ReplDev
  hs_index_table :: "BlobIndexTable option"

text \<open>\<^verbatim>\<open>HSHomeObject::PgIndexTable\<close> (lines 62 to 65).\<close>

record PgIndexTable =
  pit_pg_id :: pg_id_t
  pit_index_table :: BlobIndexTable

text \<open>
  The state of the home object and of the services it writes to:
  \<^item> \<open>pg_map\<close> is \<^verbatim>\<open>_pg_map\<close>, \<open>index_table_pg_map\<close> is
    \<^verbatim>\<open>index_table_pg_map_\<close>, from the text of an index table's uuid to its entry, and
    \<open>chunk_selector\<close> is the state of \<^verbatim>\<open>chunk_selector_\<close>;
  \<^item> \<open>repl_devs\<close> are the replication groups the replication service knows
    (\<^verbatim>\<open>create_repl_dev\<close> adds one, \<^verbatim>\<open>get_repl_dev\<close> looks one up);
  \<^item> \<open>proposed\<close> are the log entries handed to \<^verbatim>\<open>async_alloc_write\<close>, each with the
    group it went to, oldest first;
  \<^item> \<open>index_service_tables\<close> are the tables given to
    \<^verbatim>\<open>index_service().add_index_table\<close>;
  \<^item> \<open>meta_blks\<close> are the PG superblocks written with \<^verbatim>\<open>pg_sb_.write()\<close>, oldest first.
\<close>

record 'cs HSHomeObject =
  pg_map :: "pg_id_t \<rightharpoonup> HS_PG"
  index_table_pg_map :: "string \<rightharpoonup> PgIndexTable"
  chunk_selector :: 'cs
  repl_devs :: "group_id_t \<rightharpoonup> ReplDev"
  proposed :: "(group_id_t \<times> header_blob) list"
  index_service_tables :: "BlobIndexTable list"
  meta_blks :: "pg_info_superblk list"

text \<open>
  The value of a \<^verbatim>\<open>PGManager::NullAsyncResult\<close>: decided at once, or the future of
  \<^verbatim>\<open>req->result()\<close>, which takes the value that the commit handler gives the
  proposer's promise.
\<close>

datatype NullAsyncResult =
    Ready "PGError + unit"
  | AwaitCommit

subsection \<open>Construction\<close>

text \<open>
  The member loop of the first constructor (hs_pg_manager.cpp, lines 359 to 366): member
  \<open>i\<close> of the set goes to \<^verbatim>\<open>pg_sb_members[i]\<close>; of the name,
  \<^verbatim>\<open>std::min(m.name.size(), pg_members::max_name_len)\<close> bytes are written.
\<close>

fun write_members :: "pg_info_superblk \<Rightarrow> nat \<Rightarrow> PGMember list \<Rightarrow> byte list \<Rightarrow> fault + byte list" where
  "write_members sb i [] d = Inr d"
| "write_members sb i (m # ms) d =
     bindF (write_bytes d (member_at sb i + offsetof_id) (uuid_bytes (pm_id m))) (\<lambda>d1.
     bindF (write_bytes d1 (member_at sb i + offsetof_name)
              (strncpy (c_str (pm_name m)) (min (length (pm_name m)) max_name_len))) (\<lambda>d2.
     bindF (write_bytes d2 (member_at sb i + offsetof_priority) (le_bytes 4 (pm_priority m))) (\<lambda>d3.
     write_members sb (Suc i) ms d3)))"

text \<open>The chunk loop (lines 367 to 370): \<^verbatim>\<open>pg_sb_chunk_ids[i] = pg_chunk_ids->at(i)\<close>.\<close>

fun write_chunk_ids :: "pg_info_superblk \<Rightarrow> nat \<Rightarrow> chunk_num_t list \<Rightarrow> byte list \<Rightarrow> fault + byte list" where
  "write_chunk_ids sb i [] d = Inr d"
| "write_chunk_ids sb i (c # cs) d =
     bindF (write_bytes d (chunk_at sb i) (le_bytes sizeof_chunk_num_t c)) (\<lambda>d1.
     write_chunk_ids sb (Suc i) cs d1)"

text \<open>
  \<^verbatim>\<open>HS_PG::HS_PG(PGInfo, ReplDev, BlobIndexTable, pg_chunk_ids)\<close> (lines 339 to 372).
  \<^verbatim>\<open>num_chunks\<close> is the vector's size as \<^verbatim>\<open>uint32_t\<close>; the size asked of
  \<^verbatim>\<open>pg_sb_.create\<close> is computed in \<^verbatim>\<open>size_t\<close> and passed as \<^verbatim>\<open>uint32_t\<close>.
  \<open>new_superblk\<close> is the superblock after the assignments of lines 348 to 358, which
  leave \<^verbatim>\<open>blob_sequence_num\<close> as \<^verbatim>\<open>create\<close> made it. The constructor ends with
  \<^verbatim>\<open>pg_sb_.write()\<close>: the caller records the superblock as written.
\<close>

definition new_superblk ::
  "'cs env \<Rightarrow> PGInfo \<Rightarrow> ReplDev \<Rightarrow> BlobIndexTable \<Rightarrow> 32 word \<Rightarrow> pg_info_superblk" where
  "new_superblk env info rdev index_table num_chunks =
     (env_superblk_create env
        (word_of_nat (sizeof_pg_info_superblk - 1
                      + length (pi_members info) * sizeof_pg_members
                      + unat num_chunks * sizeof_chunk_num_t)))
       \<lparr>sb_id := pi_id info,
        sb_num_members := word_of_nat (length (pi_members info)),
        sb_num_chunks := num_chunks,
        sb_pg_size := pi_size info,
        sb_replica_set_uuid := rd_group_id rdev,
        sb_index_table_uuid := it_uuid index_table,
        sb_active_blob_count := 0,
        sb_tombstone_blob_count := 0,
        sb_total_occupied_blk_count := 0\<rparr>"

definition HS_PG_create ::
  "'cs env \<Rightarrow> PGInfo \<Rightarrow> ReplDev \<Rightarrow> BlobIndexTable \<Rightarrow> chunk_num_t list option \<Rightarrow> fault + HS_PG" where
  "HS_PG_create env info rdev index_table pg_chunk_ids =
     (case pg_chunk_ids of
        None \<Rightarrow> Inl (AssertFailed ''PG chunks null'')
      | Some chunk_ids \<Rightarrow>
          let num_chunks = (word_of_nat (length chunk_ids) :: 32 word);
              sb1 = new_superblk env info rdev index_table num_chunks
          in bindF (write_members sb1 0 (pi_members info) (sb_data sb1)) (\<lambda>d1.
             bindF (write_chunk_ids sb1 0 (take (unat num_chunks) chunk_ids) d1) (\<lambda>d2.
             Inr \<lparr>hs_pg_info = info,
                  hs_durable_entities = DurableEntities_init,
                  hs_pg_sb = sb1\<lparr>sb_data := d2\<rparr>,
                  hs_repl_dev = rdev,
                  hs_index_table = Some index_table\<rparr>)))"

text \<open>
  \<^verbatim>\<open>HS_PG::pg_info_from_sb\<close> (lines 328 to 337). The chunk size is not in the
  superblock; the \<^verbatim>\<open>PGInfo\<close> keeps the one its constructor gave it.
\<close>

fun read_members :: "'cs env \<Rightarrow> pg_info_superblk \<Rightarrow> nat \<Rightarrow> nat \<Rightarrow> PGMember list \<Rightarrow> fault + PGMember list" where
  "read_members env sb i 0 ms = Inr ms"
| "read_members env sb i (Suc n) ms =
     bindF (read_bytes (sb_data sb) (member_at sb i + offsetof_id) 16) (\<lambda>idb.
     bindF (read_c_string (sb_data sb) (member_at sb i + offsetof_name)) (\<lambda>nm.
     bindF (read_bytes (sb_data sb) (member_at sb i + offsetof_priority) 4) (\<lambda>pb.
     read_members env sb (Suc i) n
       (emplace (env_member_key env)
          \<lparr>pm_id = uuid_of_bytes idb, pm_name = nm, pm_priority = of_le_bytes pb\<rparr> ms))))"

definition pg_info_from_sb :: "'cs env \<Rightarrow> pg_info_superblk \<Rightarrow> fault + PGInfo" where
  "pg_info_from_sb env sb =
     bindF (read_members env sb 0 (unat (sb_num_members sb)) (pi_members (PGInfo_of_id (sb_id sb)))) (\<lambda>ms.
     Inr ((PGInfo_of_id (sb_id sb))\<lparr>pi_members := ms,
                                   pi_size := sb_pg_size sb,
                                   pi_replica_set_uuid := sb_replica_set_uuid sb\<rparr>))"

text \<open>
  \<^verbatim>\<open>HS_PG::HS_PG(superblk&&, ReplDev)\<close> (lines 374 to 381), used in recovery: the index
  table is not set yet.
\<close>

definition HS_PG_recover :: "'cs env \<Rightarrow> pg_info_superblk \<Rightarrow> ReplDev \<Rightarrow> fault + HS_PG" where
  "HS_PG_recover env sb rdev =
     bindF (pg_info_from_sb env sb) (\<lambda>info.
     Inr \<lparr>hs_pg_info = info,
          hs_durable_entities =
            \<lparr>de_blob_sequence_num = sb_blob_sequence_num sb,
             de_active_blob_count = sb_active_blob_count sb,
             de_tombstone_blob_count = sb_tombstone_blob_count sb,
             de_total_occupied_blk_count = sb_total_occupied_blk_count sb\<rparr>,
          hs_pg_sb = sb,
          hs_repl_dev = rdev,
          hs_index_table = None\<rparr>)"

section \<open>The PG manager\<close>

text \<open>
  Modelled from the spec: \<^verbatim>\<open>sisl::round_down\<close> belongs to a library outside the
  sources. Section 4.3 of the specification: the chunks a PG needs are the floor of
  \<open>size / chunk_size\<close>, so rounding down is to the next lower multiple.
\<close>

definition round_down :: "64 word \<Rightarrow> 64 word \<Rightarrow> 64 word" where
  "round_down num_to_round multiple = (num_to_round div multiple) * multiple"

text \<open>
  \<^verbatim>\<open>HSHomeObject::do_create_pg\<close> (hs_pg_manager.cpp, lines 92 to 109): the serialized
  \<^verbatim>\<open>PGInfo\<close> goes behind a sealed header that carries its size and CRC, and the entry
  is handed to the replication device of the group.
\<close>

definition do_create_pg ::
  "'cs env \<Rightarrow> 'cs HSHomeObject \<Rightarrow> ReplDev \<Rightarrow> PGInfo \<Rightarrow> fault + NullAsyncResult \<times> 'cs HSHomeObject" where
  "do_create_pg env st repl_dev pg_info =
     bindF (serialize_pg_info env pg_info) (\<lambda>serailized_pg_info.
     let info_size = length serailized_pg_info;
         hdr = env_seal env
                 \<lparr>msg_type = CREATE_PG_MSG,
                  payload_size = word_of_nat info_size,
                  payload_crc = env_crc32_ieee env serailized_pg_info,
                  seal_marker = 0\<rparr>;
         req = \<lparr>hb_header = hdr, hb_extn = serailized_pg_info\<rparr>
     in Inr (AwaitCommit, st\<lparr>proposed := proposed st @ [(rd_group_id repl_dev, req)]\<rparr>))"

text \<open>
  \<^verbatim>\<open>HSHomeObject::_create_pg\<close> (lines 59 to 90). The division by the chunk size of the
  selector traps when that is zero. The continuation of \<^verbatim>\<open>create_repl_dev\<close> runs in the
  same step: on an error the result is its translation, otherwise the replication
  service has the new group and the entry is proposed.
\<close>

definition create_pg ::
  "'cs env \<Rightarrow> 'cs HSHomeObject \<Rightarrow> PGInfo \<Rightarrow> peer_id_t set \<Rightarrow> fault + NullAsyncResult \<times> 'cs HSHomeObject" where
  "create_pg env st pg_info peers =
     (let pg_id = pi_id pg_info in
      if pg_map st pg_id \<noteq> None then Inr (Ready (Inr ()), st)
      else if pi_size pg_info = 0 then Inr (Ready (Inl PG_INVALID_ARG), st)
      else
        let most_avail_num_chunks = env_most_avail_num_chunks env (chunk_selector st);
            chunk_size = env_get_chunk_size env (chunk_selector st)
        in if chunk_size = 0 then Inl DivisionByZero
           else
             let needed_num_chunks = round_down (pi_size pg_info) chunk_size div chunk_size
             in if needed_num_chunks > ucast most_avail_num_chunks
                then Inr (Ready (Inl PG_NO_SPACE_LEFT), st)
                else
                  let pg_info1 = pg_info\<lparr>pi_chunk_size := chunk_size,
                                         pi_replica_set_uuid := env_random_generator env\<rparr>
                  in case env_create_repl_dev env (pi_replica_set_uuid pg_info1) peers of
                       Inl e \<Rightarrow>
                         bindF (toPgError (env_debug_build env) e) (\<lambda>pe. Inr (Ready (Inl pe), st))
                     | Inr repl_dev \<Rightarrow>
                         do_create_pg env
                           (st\<lparr>repl_devs := (repl_devs st)(pi_replica_set_uuid pg_info1 \<mapsto> repl_dev)\<rparr>)
                           repl_dev pg_info1)"

text \<open>
  \<^verbatim>\<open>HSHomeObject::add_pg_to_map\<close> (lines 252 to 260). \<^verbatim>\<open>try_emplace\<close> keeps an entry
  that is already there and returns its place, so the second assertion never fails.
\<close>

definition add_pg_to_map :: "'cs HSHomeObject \<Rightarrow> HS_PG \<Rightarrow> fault + 'cs HSHomeObject" where
  "add_pg_to_map st hs_pg =
     (if pi_replica_set_uuid (hs_pg_info hs_pg) \<noteq> rd_group_id (hs_repl_dev hs_pg)
      then Inl (AssertFailed ''PGInfo replica set uuid mismatch with ReplDev instance'')
      else
        let id = pi_id (hs_pg_info hs_pg)
        in Inr (case pg_map st id of
                  None \<Rightarrow> st\<lparr>pg_map := (pg_map st)(id \<mapsto> hs_pg)\<rparr>
                | Some _ \<Rightarrow> st))"

text \<open>
  \<^verbatim>\<open>HSHomeObject::on_create_pg_message_commit\<close> (lines 111 to 182). The result is the
  new state and what the handler gave the proposer's promise: \<open>None\<close> when \<^verbatim>\<open>ctx\<close> is
  null, that is when there is no request context or this replica is not the proposer.
  An exception of \<^verbatim>\<open>deserialize_pg_info\<close> is caught nowhere.
\<close>

definition on_create_pg_message_commit ::
  "'cs env \<Rightarrow> 'cs HSHomeObject \<Rightarrow> 64 word \<Rightarrow> header_blob \<Rightarrow> ReplDev \<Rightarrow> repl_req_ctx option \<Rightarrow>
     fault + 'cs HSHomeObject \<times> (PGError + unit) option" where
  "on_create_pg_message_commit env st lsn header repl_dev hs_ctx =
     (let ctx = (case hs_ctx of None \<Rightarrow> False | Some c \<Rightarrow> is_proposer c);
          setValue = (\<lambda>r. if ctx then Some r else None);
          msg_header = hb_header header
      in if env_corrupted env msg_header then Inr (st, setValue (Inl PG_CRC_MISMATCH))
         else
           let serailized_pg_info_buf = hb_extn header
           in if env_crc32_ieee env serailized_pg_info_buf \<noteq> payload_crc msg_header
              then Inr (st, setValue (Inl PG_CRC_MISMATCH))
              else
                bindF (deserialize_pg_info env serailized_pg_info_buf) (\<lambda>pg_info.
                let pg_id = pi_id pg_info
                in if pg_map st pg_id \<noteq> None then Inr (st, setValue (Inr ()))
                   else
                     let local_chunk_size = env_get_chunk_size env (chunk_selector st)
                     in if pi_chunk_size pg_info \<noteq> local_chunk_size
                        then Inr (st, setValue (Inl PG_UNKNOWN))
                        else
                          (case env_select_chunks_for_pg env (chunk_selector st) pg_id (pi_size pg_info) of
                             (None, cs1) \<Rightarrow>
                               Inr (st\<lparr>chunk_selector := cs1\<rparr>, setValue (Inl PG_NO_SPACE_LEFT))
                           | (Some num_chunk, cs1) \<Rightarrow>
                               (case env_get_pg_chunks env cs1 pg_id of
                                  None \<Rightarrow>
                                    Inr (st\<lparr>chunk_selector := cs1\<rparr>, setValue (Inl PG_NO_SPACE_LEFT))
                                | Some chunk_ids \<Rightarrow>
                                    let index_table = env_create_index_table env;
                                        uuid_str = env_to_string env (it_uuid index_table)
                                    in bindF (HS_PG_create env pg_info repl_dev index_table (Some chunk_ids))
                                         (\<lambda>hs_pg.
                                       if index_table_pg_map st uuid_str \<noteq> None
                                       then Inl (AssertFailed ''duplicate index table found'')
                                       else
                                         let st1 = st\<lparr>chunk_selector := cs1,
                                                      meta_blks := meta_blks st @ [hs_pg_sb hs_pg],
                                                      index_table_pg_map :=
                                                        (index_table_pg_map st)
                                                          (uuid_str \<mapsto>
                                                             \<lparr>pit_pg_id = pg_id,
                                                              pit_index_table = index_table\<rparr>),
                                                      index_service_tables :=
                                                        index_service_tables st @ [index_table]\<rparr>
                                         in bindF (add_pg_to_map st1
                                                     (hs_pg\<lparr>hs_index_table := Some index_table\<rparr>))
                                              (\<lambda>st2. Inr (st2, setValue (Inr ()))))))))"

text \<open>
  \<^verbatim>\<open>HSHomeObject::on_pg_meta_blk_found\<close> (lines 299 to 324), on the superblock that
  \<^verbatim>\<open>pg_sb.load\<close> read from the metadata block. \<^verbatim>\<open>get_repl_dev\<close> fails when the
  replication service has no group of that uuid.
\<close>

definition on_pg_meta_blk_found ::
  "'cs env \<Rightarrow> 'cs HSHomeObject \<Rightarrow> pg_info_superblk \<Rightarrow> fault + 'cs HSHomeObject" where
  "on_pg_meta_blk_found env st pg_sb =
     (case repl_devs st (sb_replica_set_uuid pg_sb) of
        None \<Rightarrow> Inr st
      | Some v \<Rightarrow>
          let pg_id = sb_id pg_sb
          in bindF (read_chunk_ids pg_sb 0 (unat (sb_num_chunks pg_sb))) (\<lambda>p_chunk_ids.
             case env_recover_pg_chunks env (chunk_selector st) pg_id p_chunk_ids of
               (set_pg_chunks_res, cs1) \<Rightarrow>
                 if \<not> set_pg_chunks_res then Inl (AssertFailed ''Failed to set pg chunks'')
                 else
                   let uuid_str = env_to_string env (sb_index_table_uuid pg_sb)
                   in bindF (HS_PG_recover env pg_sb v) (\<lambda>hs_pg.
                      case index_table_pg_map st uuid_str of
                        None \<Rightarrow> Inl (AssertFailed ''IndexTable should be recovered before PG'')
                      | Some it \<Rightarrow>
                          add_pg_to_map
                            (st\<lparr>chunk_selector := cs1,
                                index_table_pg_map :=
                                  (index_table_pg_map st)(uuid_str \<mapsto> it\<lparr>pit_pg_id := pg_id\<rparr>)\<rparr>)
                            (hs_pg\<lparr>hs_index_table := Some (pit_index_table it)\<rparr>))))"

section \<open>A small deployment\<close>

text \<open>
  One concrete instance of everything the theorems quantify over, small enough to
  evaluate: the theorems are applied to it to show that their hypotheses can be met.
\<close>

text \<open>
  Modelled from the spec: a \<^verbatim>\<open>HeapChunkSelector\<close> (heap_chunk_selector.h is not among
  the sources) after section 4.1 of the specification, with a single device: a uniform
  chunk size, the free chunks of the device, and the chunk list of every PG.
  \<^verbatim>\<open>select_chunks_for_pg\<close> reserves the floor of \<open>size / chunk_size\<close> chunks or fails;
  \<^verbatim>\<open>recover_pg_chunks\<close> takes the chunks of a recovered PG out of the free list.
\<close>

record demo_selector =
  ds_chunk_size :: "64 word"
  ds_free :: "chunk_num_t list"
  ds_pg_chunks :: "(pg_id_t \<times> chunk_num_t list) list"

definition demo_select_chunks_for_pg ::
  "demo_selector \<Rightarrow> pg_id_t \<Rightarrow> 64 word \<Rightarrow> 32 word option \<times> demo_selector" where
  "demo_select_chunks_for_pg cs pg sz =
     (let n = unat (sz div ds_chunk_size cs)
      in if n \<le> length (ds_free cs) \<and> map_of (ds_pg_chunks cs) pg = None
         then (Some (word_of_nat n),
               cs\<lparr>ds_free := drop n (ds_free cs),
                   ds_pg_chunks := (pg, take n (ds_free cs)) # ds_pg_chunks cs\<rparr>)
         else (None, cs))"

definition demo_recover_pg_chunks ::
  "demo_selector \<Rightarrow> pg_id_t \<Rightarrow> chunk_num_t list \<Rightarrow> bool \<times> demo_selector" where
  "demo_recover_pg_chunks cs pg chunks =
     (if set chunks \<subseteq> set (ds_free cs) \<and> map_of (ds_pg_chunks cs) pg = None
      then (True,
            cs\<lparr>ds_free := filter (\<lambda>c. c \<notin> set chunks) (ds_free cs),
                ds_pg_chunks := (pg, chunks) # ds_pg_chunks cs\<rparr>)
      else (False, cs))"

text \<open>
  The uuids of the deployment and their text: two peers, the replica set and an index
  table.
\<close>

definition demo_uuid_text :: "(uuid_t \<times> string) list" where
  "demo_uuid_text =
     [(1, ''00000000-0000-0000-0000-000000000001''),
      (2, ''00000000-0000-0000-0000-000000000002''),
      (16, ''00000000-0000-0000-0000-000000000010''),
      (32, ''00000000-0000-0000-0000-000000000020'')]"

text \<open>
  A PG of nine bytes on chunks of four bytes, with two members, its JSON document and
  the text of that document.
\<close>

definition demo_info :: PGInfo where
  "demo_info =
     \<lparr>pi_id = 1, pi_size = 9, pi_chunk_size = 4, pi_replica_set_uuid = 16,
      pi_members = [\<lparr>pm_id = 1, pm_name = ''alpha'', pm_priority = 1\<rparr>,
                    \<lparr>pm_id = 2, pm_name = ''beta'', pm_priority = - 1\<rparr>]\<rparr>"

definition demo_json :: json where
  "demo_json =
     JObject [(''pg_info'', JObject
       [(''chunk_size'', JInt 4),
        (''members'', JArray
           [JObject [(''member_id'', JString ''00000000-0000-0000-0000-000000000001''),
                     (''name'', JString ''alpha''), (''priority'', JInt 1)],
            JObject [(''member_id'', JString ''00000000-0000-0000-0000-000000000002''),
                     (''name'', JString ''beta''), (''priority'', JInt (- 1))]]),
        (''pg_id_t'', JInt 1),
        (''pg_size'', JInt 9),
        (''repl_uuid'', JString ''00000000-0000-0000-0000-000000000010'')])]"

definition demo_text :: string where
  "demo_text = ''{\"pg_info\":{\"chunk_size\":4,\"members\":[{\"member_id\":\"00000000-0000-0000-0000-000000000001\",\"name\":\"alpha\",\"priority\":1},{\"member_id\":\"00000000-0000-0000-0000-000000000002\",\"name\":\"beta\",\"priority\":-1}],\"pg_id_t\":1,\"pg_size\":9,\"repl_uuid\":\"00000000-0000-0000-0000-000000000010\"}}''"

text \<open>
  The collaborators of the deployment. The JSON codec knows the one document, the uuid
  codec the four uuids; the checksum of a payload is its length and the seal of a
  header is the exclusive or of its size and checksum; a fresh superblock is zeroed.
\<close>

definition demo_env :: "demo_selector env" where
  "demo_env =
     \<lparr>env_debug_build = False,
      env_seal = (\<lambda>h. h\<lparr>seal_marker := payload_size h XOR payload_crc h\<rparr>),
      env_corrupted = (\<lambda>h. seal_marker h \<noteq> payload_size h XOR payload_crc h),
      env_crc32_ieee = (\<lambda>s. word_of_nat (length s)),
      env_dump = (\<lambda>j. if j = demo_json then Inr demo_text
                       else Inl (UncaughtException ''type_error.316'')),
      env_parse = (\<lambda>s. if s = demo_text then Inr demo_json
                        else Inl (UncaughtException ''parse_error.101'')),
      env_to_string = (\<lambda>u. case map_of demo_uuid_text u of None \<Rightarrow> [] | Some s \<Rightarrow> s),
      env_string_generator =
        (\<lambda>s. case map_of (map (\<lambda>(u, t). (t, u)) demo_uuid_text) s of
                None \<Rightarrow> Inl (UncaughtException ''invalid uuid string'')
              | Some u \<Rightarrow> Inr u),
      env_member_key = unat,
      env_random_generator = 16,
      env_create_repl_dev = (\<lambda>g peers. Inr \<lparr>rd_group_id = g\<rparr>),
      env_create_index_table = \<lparr>it_uuid = 32\<rparr>,
      env_superblk_create =
        (\<lambda>n. \<lparr>sb_id = 0, sb_num_members = 0, sb_num_chunks = 0, sb_replica_set_uuid = 0,
               sb_pg_size = 0, sb_index_table_uuid = 0, sb_blob_sequence_num = 0,
               sb_active_blob_count = 0, sb_tombstone_blob_count = 0,
               sb_total_occupied_blk_count = 0,
               sb_data = replicate (unat n - (sizeof_pg_info_superblk - 1)) 0\<rparr>),
      env_most_avail_num_chunks = (\<lambda>cs. word_of_nat (length (ds_free cs))),
      env_get_chunk_size = ds_chunk_size,
      env_select_chunks_for_pg = demo_select_chunks_for_pg,
      env_get_pg_chunks = (\<lambda>cs pg. map_of (ds_pg_chunks cs) pg),
      env_recover_pg_chunks = demo_recover_pg_chunks\<rparr>"

text \<open>
  The empty home object on a selector with two free chunks; the message that carries
  the PG, as \<^verbatim>\<open>do_create_pg\<close> builds it; the request context of the proposer.
\<close>

definition demo_st :: "demo_selector HSHomeObject" where
  "demo_st =
     \<lparr>pg_map = Map.empty,
      index_table_pg_map = Map.empty,
      chunk_selector = \<lparr>ds_chunk_size = 4, ds_free = [7, 8], ds_pg_chunks = []\<rparr>,
      repl_devs = Map.empty,
      proposed = [],
      index_service_tables = [],
      meta_blks = []\<rparr>"

definition demo_msg :: header_blob where
  "demo_msg =
     \<lparr>hb_header = \<lparr>msg_type = CREATE_PG_MSG, payload_size = 277, payload_crc = 277,
                   seal_marker = 0\<rparr>,
      hb_extn = demo_text\<rparr>"

definition demo_ctx :: "repl_req_ctx option" where
  "demo_ctx = Some \<lparr>is_proposer = True\<rparr>"

text \<open>
  The same deployment after the message has committed: the superblock of the PG, with
  the two members at offsets 0 and 52 of the trailer and the two chunk ids at offset
  104; the PG; and the home object that holds it.
\<close>

definition demo_sb :: pg_info_superblk where
  "demo_sb =
     \<lparr>sb_id = 1, sb_num_members = 2, sb_num_chunks = 2, sb_replica_set_uuid = 16,
      sb_pg_size = 9, sb_index_table_uuid = 32, sb_blob_sequence_num = 0,
      sb_active_blob_count = 0, sb_tombstone_blob_count = 0, sb_total_occupied_blk_count = 0,
      sb_data =
        [0, 0, 0, 0, 0, 0, 0, 0, 0, 0, 0, 0, 0, 0, 0, 1,
         97, 108, 112, 104, 97, 0, 0, 0, 0, 0, 0, 0, 0, 0, 0, 0,
         0, 0, 0, 0, 0, 0, 0, 0, 0, 0, 0, 0, 0, 0, 0, 0,
         1, 0, 0, 0,
         0, 0, 0, 0, 0, 0, 0, 0, 0, 0, 0, 0, 0, 0, 0, 2,
         98, 101, 116, 97, 0, 0, 0, 0, 0, 0, 0, 0, 0, 0, 0, 0,
         0, 0, 0, 0, 0, 0, 0, 0, 0, 0, 0, 0, 0, 0, 0, 0,
         255, 255, 255, 255,
         7, 0, 8, 0]\<rparr>"

definition demo_pg :: HS_PG where
  "demo_pg =
     \<lparr>hs_pg_info = demo_info,
      hs_durable_entities = DurableEntities_init,
      hs_pg_sb = demo_sb,
      hs_repl_dev = \<lparr>rd_group_id = 16\<rparr>,
      hs_index_table = Some \<lparr>it_uuid = 32\<rparr>\<rparr>"

definition demo_committed :: "demo_selector HSHomeObject" where
  "demo_committed =
     \<lparr>pg_map = [1 \<mapsto> demo_pg],
      index_table_pg_map =
        [''00000000-0000-0000-0000-000000000020'' \<mapsto>
           \<lparr>pit_pg_id = 1, pit_index_table = \<lparr>it_uuid = 32\<rparr>\<rparr>],
      chunk_selector = \<lparr>ds_chunk_size = 4, ds_free = [], ds_pg_chunks = [(1, [7, 8])]\<rparr>,
      repl_devs = [16 \<mapsto> \<lparr>rd_group_id = 16\<rparr>],
      proposed = [(16, demo_msg)],
      index_service_tables = [\<lparr>it_uuid = 32\<rparr>],
      meta_blks = [demo_sb]\<rparr>"

text \<open>A replica whose chunks are eight bytes long: without the PG, and with it.\<close>

definition demo_st8 :: "demo_selector HSHomeObject" where
  "demo_st8 = demo_st\<lparr>chunk_selector := \<lparr>ds_chunk_size = 8, ds_free = [7, 8], ds_pg_chunks = []\<rparr>\<rparr>"

definition demo_committed8 :: "demo_selector HSHomeObject" where
  "demo_committed8 =
     demo_committed\<lparr>chunk_selector := \<lparr>ds_chunk_size = 8, ds_free = [], ds_pg_chunks = [(1, [7, 8])]\<rparr>\<rparr>"

text \<open>Two damaged copies of the message: a broken seal, and a wrong payload CRC.\<close>

definition demo_msg_bad_seal :: header_blob where
  "demo_msg_bad_seal = demo_msg\<lparr>hb_header := (hb_header demo_msg)\<lparr>seal_marker := 1\<rparr>\<rparr>"

definition demo_msg_bad_crc :: header_blob where
  "demo_msg_bad_crc =
     demo_msg\<lparr>hb_header := (hb_header demo_msg)\<lparr>payload_crc := 0, seal_marker := 277\<rparr>\<rparr>"

text \<open>
  The deployment at a restart. The replication service knows the group again
  (\<open>demo_no_index\<close>); the index service has then handed the index table back
  (\<open>demo_restart\<close>); the metadata scan then finds \<open>demo_sb\<close> and recovers the PG
  (\<open>demo_recovered\<close>). The chunk size is not in the superblock, so the recovered
  \<^verbatim>\<open>PGInfo\<close> has none.
\<close>

definition demo_recovered_pg :: HS_PG where
  "demo_recovered_pg =
     demo_pg\<lparr>hs_pg_info := demo_info\<lparr>pi_chunk_size := 0\<rparr>, hs_index_table := None\<rparr>"

definition demo_no_index :: "demo_selector HSHomeObject" where
  "demo_no_index = demo_st\<lparr>repl_devs := [16 \<mapsto> \<lparr>rd_group_id = 16\<rparr>]\<rparr>"

definition demo_restart :: "demo_selector HSHomeObject" where
  "demo_restart =
     demo_no_index\<lparr>index_table_pg_map :=
                     [''00000000-0000-0000-0000-000000000020'' \<mapsto>
                        \<lparr>pit_pg_id = 0, pit_index_table = \<lparr>it_uuid = 32\<rparr>\<rparr>]\<rparr>"

definition demo_recovered :: "demo_selector HSHomeObject" where
  "demo_recovered =
     demo_restart\<lparr>chunk_selector := \<lparr>ds_chunk_size = 4, ds_free = [], ds_pg_chunks = [(1, [7, 8])]\<rparr>,
                  index_table_pg_map :=
                    [''00000000-0000-0000-0000-000000000020'' \<mapsto>
                       \<lparr>pit_pg_id = 1, pit_index_table = \<lparr>it_uuid = 32\<rparr>\<rparr>],
                  pg_map := [1 \<mapsto> demo_recovered_pg\<lparr>hs_index_table := Some \<lparr>it_uuid = 32\<rparr>\<rparr>]\<rparr>"

text \<open>
  Two more superblocks: one of another PG, with counters 5, 6 and 7 and a trailer of
  108 bytes, to be assigned to; and one that claims \<open>2 ^ 27\<close> members.
\<close>

definition demo_other_sb :: pg_info_superblk where
  "demo_other_sb =
     \<lparr>sb_id = 2, sb_num_members = 0, sb_num_chunks = 0, sb_replica_set_uuid = 17,
      sb_pg_size = 4, sb_index_table_uuid = 33, sb_blob_sequence_num = 9,
      sb_active_blob_count = 5, sb_tombstone_blob_count = 6, sb_total_occupied_blk_count = 7,
      sb_data = replicate 108 1\<rparr>"

definition demo_huge_sb :: pg_info_superblk where
  "demo_huge_sb = demo_sb\<lparr>sb_num_members := 0x8000000, sb_num_chunks := 0\<rparr>"

section \<open>Properties\<close>

lemma length_le_bytes [simp]: "length (le_bytes n w) = n"
  by (simp add: le_bytes_def)

subsection \<open>The error mapping\<close>

text \<open>
  C5. The mapping of replication-service errors to PG errors is the fixed table:
  NOT_LEADER to NOT_LEADER, TIMEOUT to TIMEOUT, SERVER_NOT_FOUND to UNKNOWN_PG,
  NO_SPACE_LEFT to NO_SPACE_LEFT, DRIVE_WRITE_ERROR to DRIVE_WRITE_ERROR, RETRY_REQUEST
  to RETRY_REQUEST, CANNOT_REMOVE_LEADER to UNKNOWN_PEER; every other code that is not OK
  maps to INVALID_ARG or UNKNOWN. This holds in debug and in release builds.
\<close>

theorem toPgError_table:
  "toPgError dbg NOT_LEADER = Inr PG_NOT_LEADER \<and>
   toPgError dbg TIMEOUT = Inr PG_TIMEOUT \<and>
   toPgError dbg SERVER_NOT_FOUND = Inr PG_UNKNOWN_PG \<and>
   toPgError dbg NO_SPACE_LEFT = Inr PG_NO_SPACE_LEFT \<and>
   toPgError dbg DRIVE_WRITE_ERROR = Inr PG_DRIVE_WRITE_ERROR \<and>
   toPgError dbg RETRY_REQUEST = Inr PG_RETRY_REQUEST \<and>
   toPgError dbg CANNOT_REMOVE_LEADER = Inr PG_UNKNOWN_PEER \<and>
   (\<forall>e. e \<noteq> OK \<and>
        e \<notin> {NOT_LEADER, TIMEOUT, SERVER_NOT_FOUND, NO_SPACE_LEFT, DRIVE_WRITE_ERROR,
              RETRY_REQUEST, CANNOT_REMOVE_LEADER} \<longrightarrow>
        toPgError dbg e = Inr PG_INVALID_ARG \<or> toPgError dbg e = Inr PG_UNKNOWN)"
proof -
  have "toPgError dbg e = Inr PG_INVALID_ARG \<or> toPgError dbg e = Inr PG_UNKNOWN"
    if "e \<noteq> OK"
      and "e \<notin> {NOT_LEADER, TIMEOUT, SERVER_NOT_FOUND, NO_SPACE_LEFT, DRIVE_WRITE_ERROR,
                 RETRY_REQUEST, CANNOT_REMOVE_LEADER}"
    for e
    using that by (cases e) simp_all
  then show ?thesis by simp
qed

theorem toPgError_table_witness:
  "CANCELLED \<noteq> OK \<and>
   CANCELLED \<notin> {NOT_LEADER, TIMEOUT, SERVER_NOT_FOUND, NO_SPACE_LEFT, DRIVE_WRITE_ERROR,
                 RETRY_REQUEST, CANNOT_REMOVE_LEADER} \<and>
   toPgError True CANCELLED = Inr PG_INVALID_ARG \<and>
   toPgError False FAILED = Inr PG_UNKNOWN \<and>
   toPgError True (UNLISTED 42) = Inr PG_UNKNOWN \<and>
   toPgError True SERVER_NOT_FOUND = Inr PG_UNKNOWN_PG"
  using toPgError_table [of True] toPgError_table [of False] by simp

subsection \<open>Auxiliary facts\<close>

lemma bindF_Inr [simp]: "bindF (Inr x) f = f x"
  by (simp add: bindF_def)

lemma bindF_Inl [simp]: "bindF (Inl e) f = Inl e"
  by (simp add: bindF_def)

lemma bindF_eq_Inr: "bindF m f = Inr y \<longleftrightarrow> (\<exists>x. m = Inr x \<and> f x = Inr y)"
  by (cases m) simp_all

lemma unat_ucast_32_64: "unat (ucast (w :: 32 word) :: 64 word) = unat w"
proof -
  have "unat w < 2 ^ LENGTH(32)" by (rule unsigned_less)
  then show ?thesis by (simp add: unsigned_ucast_eq take_bit_eq_mod)
qed

lemma unat_of_nat_32: "n < 2 ^ 32 \<Longrightarrow> unat (word_of_nat n :: 32 word) = n"
  by (simp add: unat_of_nat take_bit_eq_mod)

text \<open>
  Rounding down and dividing is the floor of the quotient: the product
  \<open>(s div c) * c\<close> is at most \<open>s\<close>, so it does not wrap.
\<close>

lemma round_down_div:
  assumes "c \<noteq> 0"
  shows "unat (round_down s c div c) = unat s div unat c"
proof -
  have c0: "0 < unat c" using assms by (simp add: unat_gt_0)
  have le: "unat (s div c) * unat c \<le> unat s"
    by (simp add: unat_div)
  have "unat s < 2 ^ LENGTH(64)" by (rule unsigned_less)
  with le have lt: "unat (s div c) * unat c < 2 ^ LENGTH(64)" by linarith
  have "unat ((s div c) * c) = unat (s div c) * unat c"
    using lt by (simp only: unat_mult_lem)
  then show ?thesis
    using c0 by (simp add: round_down_def unat_div)
qed

text \<open>The deployment: the text of the document, and what the two codecs do with it.\<close>

lemma length_demo_text: "length demo_text = 277"
  by (simp add: demo_text_def)

lemma demo_serialize: "serialize_pg_info demo_env demo_info = Inr demo_text"
  by (simp add: serialize_pg_info_def pg_info_to_json_def json_assign2_def members_to_json_def
      member_to_json_def demo_env_def demo_info_def demo_json_def demo_uuid_text_def)

lemma demo_deserialize: "deserialize_pg_info demo_env demo_text = Inr demo_info"
  by (simp add: deserialize_pg_info_def pg_info_of_json_def member_of_json_def demo_env_def
      demo_info_def demo_json_def demo_uuid_text_def PGInfo_of_id_def PGMember_of_id_def
      emplace_def insort_insert_key_def)

lemma demo_msg_sound:
  "\<not> env_corrupted demo_env (hb_header demo_msg)"
  "env_crc32_ieee demo_env (hb_extn demo_msg) = payload_crc (hb_header demo_msg)"
  "hb_extn demo_msg = demo_text"
  by (simp_all add: demo_env_def demo_msg_def length_demo_text)

text \<open>
  The members of the deployment's environment, so that it need not be unfolded; then
  the scenario: \<^verbatim>\<open>_create_pg\<close> of the PG proposes the message, and its commit at the
  proposer builds the PG with its superblock and ends in the state \<open>demo_committed\<close>.
\<close>

lemma demo_env_sel:
  "env_debug_build demo_env = False"
  "env_seal demo_env h = h\<lparr>seal_marker := payload_size h XOR payload_crc h\<rparr>"
  "env_corrupted demo_env h \<longleftrightarrow> seal_marker h \<noteq> payload_size h XOR payload_crc h"
  "env_crc32_ieee demo_env s = word_of_nat (length s)"
  "env_member_key demo_env = unat"
  "env_random_generator demo_env = 16"
  "env_create_repl_dev demo_env g peers = Inr \<lparr>rd_group_id = g\<rparr>"
  "env_create_index_table demo_env = \<lparr>it_uuid = 32\<rparr>"
  "env_most_avail_num_chunks demo_env cs = word_of_nat (length (ds_free cs))"
  "env_get_chunk_size demo_env cs = ds_chunk_size cs"
  "env_select_chunks_for_pg demo_env = demo_select_chunks_for_pg"
  "env_get_pg_chunks demo_env cs pg = map_of (ds_pg_chunks cs) pg"
  "env_recover_pg_chunks demo_env = demo_recover_pg_chunks"
  by (simp_all add: demo_env_def)

lemma demo_to_string:
  "env_to_string demo_env 1 = ''00000000-0000-0000-0000-000000000001''"
  "env_to_string demo_env 2 = ''00000000-0000-0000-0000-000000000002''"
  "env_to_string demo_env 16 = ''00000000-0000-0000-0000-000000000010''"
  "env_to_string demo_env 32 = ''00000000-0000-0000-0000-000000000020''"
  by (simp_all add: demo_env_def demo_uuid_text_def)

lemma demo_info_sel:
  "pi_id demo_info = 1" "pi_size demo_info = 9" "pi_chunk_size demo_info = 4"
  "pi_replica_set_uuid demo_info = 16"
  by (simp_all add: demo_info_def)

lemma demo_info_upd:
  "demo_info\<lparr>pi_chunk_size := 4, pi_replica_set_uuid := 16\<rparr> = demo_info"
  by (simp add: demo_info_def)

lemma demo_HS_PG_create:
  "HS_PG_create demo_env demo_info \<lparr>rd_group_id = 16\<rparr> \<lparr>it_uuid = 32\<rparr> (Some [7, 8]) = Inr demo_pg"
  by code_simp

lemma demo_create_pg:
  "create_pg demo_env demo_st demo_info {1, 2} =
     Inr (AwaitCommit, demo_st\<lparr>repl_devs := [16 \<mapsto> \<lparr>rd_group_id = 16\<rparr>], proposed := [(16, demo_msg)]\<rparr>)"
  by (simp add: create_pg_def do_create_pg_def demo_env_sel demo_info_sel demo_info_upd
      demo_serialize round_down_def length_demo_text demo_st_def demo_msg_def)

lemma demo_commit:
  "on_create_pg_message_commit demo_env
     (demo_st\<lparr>repl_devs := [16 \<mapsto> \<lparr>rd_group_id = 16\<rparr>], proposed := [(16, demo_msg)]\<rparr>)
     1 demo_msg \<lparr>rd_group_id = 16\<rparr> demo_ctx
   = Inr (demo_committed, Some (Inr ()))"
proof -
  have sel: "demo_select_chunks_for_pg \<lparr>ds_chunk_size = 4, ds_free = [7, 8], ds_pg_chunks = []\<rparr> 1 9
      = (Some 2, \<lparr>ds_chunk_size = 4, ds_free = [], ds_pg_chunks = [(1, [7, 8])]\<rparr>)"
    by (simp add: demo_select_chunks_for_pg_def word_div_def)
  show ?thesis
    using demo_msg_sound
    by (simp add: on_create_pg_message_commit_def demo_deserialize demo_st_def demo_ctx_def
        demo_env_sel demo_info_sel demo_to_string sel demo_HS_PG_create add_pg_to_map_def
        demo_committed_def demo_pg_def Let_def)
qed

subsection \<open>The data header\<close>

text \<open>
  C6, as the claim states it, fails: under \<^verbatim>\<open>#pragma pack(1)\<close> the header has no
  padding, and a fresh header is 13 bytes long, not 16.
\<close>

theorem DataHeader_not_16_bytes: "length (DataHeader_bytes DataHeader_init) \<noteq> 16"
  by (simp add: DataHeader_bytes_def)

text \<open>
  C6, amended. The on-disk DataHeader is a 13-byte packed record: an 8-byte magic, a
  1-byte version and a 4-byte type. A fresh header has magic 0x21FDFFDBA8D68FC6,
  version 1 and type BLOB_INFO; the types are SHARD_INFO = 1 and BLOB_INFO = 2. And
  \<^verbatim>\<open>valid()\<close> is true if and only if the stored magic is that constant and the stored
  version is at most the current version, 1.
\<close>

theorem DataHeader_layout_and_valid:
  "length (DataHeader_bytes h) = 13 \<and>
   (valid h \<longleftrightarrow> dh_magic h = 0x21FDFFDBA8D68FC6 \<and> dh_version h \<le> 1) \<and>
   DataHeader_init = \<lparr>dh_magic = 0x21FDFFDBA8D68FC6, dh_version = 1, dh_type = BLOB_INFO\<rparr> \<and>
   data_type_code SHARD_INFO = 1 \<and> data_type_code BLOB_INFO = 2"
  by (simp add: DataHeader_bytes_def valid_def DataHeader_init_def data_header_magic_def
      data_header_version_def)

subsection \<open>Committing a CREATE_PG message\<close>

text \<open>
  C3. If the header of the committed message fails its validation, or the CRC of the
  payload is not the header's \<^verbatim>\<open>payload_crc\<close>, then the handler returns (no fault)
  with the state unchanged: no PG, no index table, no chunk reservation. CRC_MISMATCH is
  given to the promise of the proposer only: with no request context, or on a replica
  that did not propose the entry, nothing is signalled.
\<close>

theorem commit_crc_mismatch:
  assumes "env_corrupted env (hb_header header) \<or>
           env_crc32_ieee env (hb_extn header) \<noteq> payload_crc (hb_header header)"
  shows "on_create_pg_message_commit env st lsn header repl_dev hs_ctx =
           Inr (st, case hs_ctx of
                      None \<Rightarrow> None
                    | Some c \<Rightarrow> if is_proposer c then Some (Inl PG_CRC_MISMATCH) else None)"
  using assms by (auto simp: on_create_pg_message_commit_def Let_def split: option.splits)

theorem commit_crc_mismatch_witness:
  "env_corrupted demo_env (hb_header demo_msg_bad_seal) \<and>
   on_create_pg_message_commit demo_env demo_st 1 demo_msg_bad_seal \<lparr>rd_group_id = 16\<rparr> demo_ctx =
     Inr (demo_st, Some (Inl PG_CRC_MISMATCH)) \<and>
   \<not> env_corrupted demo_env (hb_header demo_msg_bad_crc) \<and>
   env_crc32_ieee demo_env (hb_extn demo_msg_bad_crc) \<noteq> payload_crc (hb_header demo_msg_bad_crc) \<and>
   on_create_pg_message_commit demo_env demo_st 1 demo_msg_bad_crc \<lparr>rd_group_id = 16\<rparr>
       (Some \<lparr>is_proposer = False\<rparr>) =
     Inr (demo_st, None) \<and>
   on_create_pg_message_commit demo_env demo_st 1 demo_msg_bad_crc \<lparr>rd_group_id = 16\<rparr> None =
     Inr (demo_st, None)"
proof -
  have a: "env_corrupted demo_env (hb_header demo_msg_bad_seal)"
    by (simp add: demo_env_def demo_msg_bad_seal_def demo_msg_def)
  have b: "\<not> env_corrupted demo_env (hb_header demo_msg_bad_crc)"
    by (simp add: demo_env_def demo_msg_bad_crc_def demo_msg_def)
  have c: "env_crc32_ieee demo_env (hb_extn demo_msg_bad_crc) \<noteq> payload_crc (hb_header demo_msg_bad_crc)"
    by (simp add: demo_env_def demo_msg_bad_crc_def demo_msg_def length_demo_text)
  show ?thesis
    using a b c
      commit_crc_mismatch [of demo_env demo_msg_bad_seal demo_st 1 "\<lparr>rd_group_id = 16\<rparr>" demo_ctx]
      commit_crc_mismatch [of demo_env demo_msg_bad_crc demo_st 1 "\<lparr>rd_group_id = 16\<rparr>"
        "Some \<lparr>is_proposer = False\<rparr>"]
      commit_crc_mismatch [of demo_env demo_msg_bad_crc demo_st 1 "\<lparr>rd_group_id = 16\<rparr>" None]
    by (simp add: demo_ctx_def)
qed

text \<open>
  A commit that gave the proposer success has left a PG of the message's id in the
  map, whether it found one or made one.
\<close>

lemma HS_PG_create_info:
  "HS_PG_create env info rdev index_table chunks = Inr pg \<Longrightarrow> hs_pg_info pg = info"
  by (auto simp: HS_PG_create_def Let_def bindF_eq_Inr split: option.splits)

lemma add_pg_to_map_present:
  "add_pg_to_map st hs_pg = Inr st' \<Longrightarrow> pg_map st' (pi_id (hs_pg_info hs_pg)) \<noteq> None"
  by (auto simp: add_pg_to_map_def Let_def split: if_splits option.splits)

lemma commit_success_present:
  assumes "on_create_pg_message_commit env st lsn header repl_dev hs_ctx = Inr (st1, Some (Inr ()))"
  shows "\<exists>pg_info. \<not> env_corrupted env (hb_header header) \<and>
           env_crc32_ieee env (hb_extn header) = payload_crc (hb_header header) \<and>
           deserialize_pg_info env (hb_extn header) = Inr pg_info \<and>
           pg_map st1 (pi_id pg_info) \<noteq> None"
proof -
  from assms have nc: "\<not> env_corrupted env (hb_header header)"
    and crc: "env_crc32_ieee env (hb_extn header) = payload_crc (hb_header header)"
    by (auto simp: on_create_pg_message_commit_def Let_def split: if_splits)
  with assms obtain pg_info where d: "deserialize_pg_info env (hb_extn header) = Inr pg_info"
    by (cases "deserialize_pg_info env (hb_extn header)")
      (auto simp: on_create_pg_message_commit_def Let_def)
  have "pg_map st1 (pi_id pg_info) \<noteq> None"
  proof (cases "pg_map st (pi_id pg_info) = None")
    case False
    with assms nc crc d show ?thesis
      by (auto simp: on_create_pg_message_commit_def Let_def split: if_splits)
  next
    case True
    with assms nc crc d show ?thesis
      by (auto simp: on_create_pg_message_commit_def Let_def bindF_eq_Inr
          split: if_splits prod.splits option.splits
          dest!: HS_PG_create_info add_pg_to_map_present)
  qed
  with nc crc d show ?thesis by blast
qed

text \<open>
  C1. \<^verbatim>\<open>create_pg\<close> is idempotent by pg_id. If a PG with the id exists locally,
  \<^verbatim>\<open>_create_pg\<close> returns success and leaves the state as it is: nothing proposed, no
  replication group created. And the commit of a CREATE_PG message for that id (a
  message whose header and payload CRC are sound and whose payload deserializes to a
  \<^verbatim>\<open>PGInfo\<close> of that id) is a no-op: the state, with its PG map, is unchanged, and the
  promise of the proposer is resolved with success. The state is unchanged even when
  the header or the CRC of such a message is not sound. In particular a message committed
  twice: in a state that a commit of the message reached with success for its proposer,
  a second commit of the same message changes nothing and reports success.
\<close>

theorem create_pg_idempotent:
  "(pg_map st (pi_id pg_info) \<noteq> None \<longrightarrow>
      create_pg env st pg_info peers = Inr (Ready (Inr ()), st) \<and>
      (deserialize_pg_info env (hb_extn header) = Inr pg_info \<longrightarrow>
       (\<exists>p. on_create_pg_message_commit env st lsn header repl_dev hs_ctx = Inr (st, p))) \<and>
      (\<not> env_corrupted env (hb_header header) \<and>
       env_crc32_ieee env (hb_extn header) = payload_crc (hb_header header) \<and>
       deserialize_pg_info env (hb_extn header) = Inr pg_info \<longrightarrow>
       on_create_pg_message_commit env st lsn header repl_dev hs_ctx =
         Inr (st, case hs_ctx of
                    None \<Rightarrow> None
                  | Some c \<Rightarrow> if is_proposer c then Some (Inr ()) else None))) \<and>
   (\<forall>st0 lsn0 repl_dev0 hs_ctx0.
      on_create_pg_message_commit env st0 lsn0 header repl_dev0 hs_ctx0 = Inr (st, Some (Inr ())) \<longrightarrow>
      on_create_pg_message_commit env st lsn header repl_dev hs_ctx =
        Inr (st, case hs_ctx of
                   None \<Rightarrow> None
                 | Some c \<Rightarrow> if is_proposer c then Some (Inr ()) else None))"
proof -
  have again: "on_create_pg_message_commit env st lsn header repl_dev hs_ctx =
        Inr (st, case hs_ctx of
                   None \<Rightarrow> None
                 | Some c \<Rightarrow> if is_proposer c then Some (Inr ()) else None)"
    if "pg_map st (pi_id info) \<noteq> None"
      and "\<not> env_corrupted env (hb_header header)"
      and "env_crc32_ieee env (hb_extn header) = payload_crc (hb_header header)"
      and "deserialize_pg_info env (hb_extn header) = Inr info"
    for info
    using that by (auto simp: on_create_pg_message_commit_def Let_def split: option.splits)
  have twice: "on_create_pg_message_commit env st lsn header repl_dev hs_ctx =
        Inr (st, case hs_ctx of
                   None \<Rightarrow> None
                 | Some c \<Rightarrow> if is_proposer c then Some (Inr ()) else None)"
    if "on_create_pg_message_commit env st0 lsn0 header repl_dev0 hs_ctx0 = Inr (st, Some (Inr ()))"
    for st0 lsn0 repl_dev0 hs_ctx0
    using commit_success_present [OF that] again by blast
  have noop: "\<exists>p. on_create_pg_message_commit env st lsn header repl_dev hs_ctx = Inr (st, p)"
    if "pg_map st (pi_id pg_info) \<noteq> None"
      and "deserialize_pg_info env (hb_extn header) = Inr pg_info"
    using that by (auto simp: on_create_pg_message_commit_def Let_def)
  have "create_pg env st pg_info peers = Inr (Ready (Inr ()), st)"
    if "pg_map st (pi_id pg_info) \<noteq> None"
    using that by (simp add: create_pg_def Let_def)
  with again [of pg_info] twice noop show ?thesis
    by blast
qed

theorem create_pg_idempotent_witness:
  "pg_map demo_committed (pi_id demo_info) \<noteq> None \<and>
   \<not> env_corrupted demo_env (hb_header demo_msg) \<and>
   env_crc32_ieee demo_env (hb_extn demo_msg) = payload_crc (hb_header demo_msg) \<and>
   deserialize_pg_info demo_env (hb_extn demo_msg) = Inr demo_info \<and>
   create_pg demo_env demo_committed demo_info {1, 2} = Inr (Ready (Inr ()), demo_committed) \<and>
   on_create_pg_message_commit demo_env
       (demo_st\<lparr>repl_devs := [16 \<mapsto> \<lparr>rd_group_id = 16\<rparr>], proposed := [(16, demo_msg)]\<rparr>)
       1 demo_msg \<lparr>rd_group_id = 16\<rparr> demo_ctx =
     Inr (demo_committed, Some (Inr ())) \<and>
   on_create_pg_message_commit demo_env demo_committed 2 demo_msg \<lparr>rd_group_id = 16\<rparr> demo_ctx =
     Inr (demo_committed, Some (Inr ())) \<and>
   dom (pg_map demo_committed) = {1}"
proof -
  note T = create_pg_idempotent [of demo_committed demo_info demo_env "{1, 2}" demo_msg 2
      "\<lparr>rd_group_id = 16\<rparr>" demo_ctx]
  have a: "pg_map demo_committed (pi_id demo_info) \<noteq> None"
    by (simp add: demo_committed_def demo_info_def)
  have b: "deserialize_pg_info demo_env (hb_extn demo_msg) = Inr demo_info"
    using demo_msg_sound(3) demo_deserialize by simp
  have c: "dom (pg_map demo_committed) = {1}"
    by (simp add: demo_committed_def)
  have d: "create_pg demo_env demo_committed demo_info {1, 2} = Inr (Ready (Inr ()), demo_committed)"
    using T a by blast
  have e: "on_create_pg_message_commit demo_env demo_committed 2 demo_msg \<lparr>rd_group_id = 16\<rparr> demo_ctx =
     Inr (demo_committed, Some (Inr ()))"
    using T [THEN conjunct2, rule_format, OF demo_commit] by (simp add: demo_ctx_def)
  show ?thesis
    using a b c d e demo_msg_sound(1,2) demo_commit by simp
qed

text \<open>
  C4, as the claim states it, fails: the handler looks the pg_id up before it compares
  chunk sizes. A message whose chunk size (4) differs from the local one (8), for a
  pg_id that is already in the PG map, gives the proposer success, not UNKNOWN.
\<close>

theorem commit_chunk_size_not_checked_first:
  "deserialize_pg_info demo_env (hb_extn demo_msg) = Inr demo_info \<and>
   pi_chunk_size demo_info \<noteq> env_get_chunk_size demo_env (chunk_selector demo_committed8) \<and>
   on_create_pg_message_commit demo_env demo_committed8 2 demo_msg \<lparr>rd_group_id = 16\<rparr> demo_ctx =
     Inr (demo_committed8, Some (Inr ())) \<and>
   on_create_pg_message_commit demo_env demo_committed8 2 demo_msg \<lparr>rd_group_id = 16\<rparr> demo_ctx \<noteq>
     Inr (demo_committed8, Some (Inl PG_UNKNOWN))"
proof -
  have b: "deserialize_pg_info demo_env (hb_extn demo_msg) = Inr demo_info"
    using demo_msg_sound(3) demo_deserialize by simp
  have c: "pi_chunk_size demo_info \<noteq> env_get_chunk_size demo_env (chunk_selector demo_committed8)"
    by (simp add: demo_env_sel demo_info_sel demo_committed8_def)
  have d: "pg_map demo_committed8 1 \<noteq> None"
    by (simp add: demo_committed8_def demo_committed_def)
  have "on_create_pg_message_commit demo_env demo_committed8 2 demo_msg \<lparr>rd_group_id = 16\<rparr> demo_ctx =
     Inr (demo_committed8, Some (Inr ()))"
    using demo_msg_sound(1,2) b d
    by (simp add: on_create_pg_message_commit_def demo_info_sel demo_ctx_def)
  with b c show ?thesis by simp
qed

text \<open>
  C4, amended. For every committed CREATE_PG message (sound header and payload CRC)
  whose deserialized \<^verbatim>\<open>chunk_size\<close> differs from the chunk size of the local chunk
  selector, the handler returns with the state unchanged: no PG inserted, no index
  table created, no chunk reserved. What it records for the proposer is UNKNOWN when
  the pg_id is not yet in the PG map, and success when it is.
\<close>

theorem commit_chunk_size_mismatch:
  assumes "\<not> env_corrupted env (hb_header header)"
    and "env_crc32_ieee env (hb_extn header) = payload_crc (hb_header header)"
    and "deserialize_pg_info env (hb_extn header) = Inr pg_info"
    and "pi_chunk_size pg_info \<noteq> env_get_chunk_size env (chunk_selector st)"
  shows "on_create_pg_message_commit env st lsn header repl_dev hs_ctx =
           Inr (st, case hs_ctx of
                      None \<Rightarrow> None
                    | Some c \<Rightarrow>
                        if is_proposer c
                        then Some (if pg_map st (pi_id pg_info) = None then Inl PG_UNKNOWN else Inr ())
                        else None)"
  using assms
  by (auto simp: on_create_pg_message_commit_def Let_def split: option.splits)

theorem commit_chunk_size_mismatch_witness:
  "\<not> env_corrupted demo_env (hb_header demo_msg) \<and>
   env_crc32_ieee demo_env (hb_extn demo_msg) = payload_crc (hb_header demo_msg) \<and>
   deserialize_pg_info demo_env (hb_extn demo_msg) = Inr demo_info \<and>
   pi_chunk_size demo_info \<noteq> env_get_chunk_size demo_env (chunk_selector demo_st8) \<and>
   pg_map demo_st8 (pi_id demo_info) = None \<and>
   on_create_pg_message_commit demo_env demo_st8 1 demo_msg \<lparr>rd_group_id = 16\<rparr> demo_ctx =
     Inr (demo_st8, Some (Inl PG_UNKNOWN))"
proof -
  have b: "deserialize_pg_info demo_env (hb_extn demo_msg) = Inr demo_info"
    using demo_msg_sound(3) demo_deserialize by simp
  have c: "pi_chunk_size demo_info \<noteq> env_get_chunk_size demo_env (chunk_selector demo_st8)"
    by (simp add: demo_env_sel demo_info_sel demo_st8_def)
  have d: "pg_map demo_st8 (pi_id demo_info) = None"
    by (simp add: demo_st8_def demo_st_def)
  show ?thesis
    using b c d demo_msg_sound(1,2)
      commit_chunk_size_mismatch [OF demo_msg_sound(1,2) b c, of 1 "\<lparr>rd_group_id = 16\<rparr>" demo_ctx]
    by (simp add: demo_ctx_def)
qed

subsection \<open>The checks of create_pg\<close>

text \<open>
  C2, as the claim states it, fails: the number of chunks needed is rounded down. With
  two free chunks of four bytes, a PG of nine bytes (more than two times four) passes
  the check: a replication group is created and the message is proposed.
\<close>

theorem create_pg_passes_above_capacity:
  "pg_map demo_st (pi_id demo_info) = None \<and>
   unat (env_most_avail_num_chunks demo_env (chunk_selector demo_st))
     * unat (env_get_chunk_size demo_env (chunk_selector demo_st)) < unat (pi_size demo_info) \<and>
   create_pg demo_env demo_st demo_info {1, 2} =
     Inr (AwaitCommit,
          demo_st\<lparr>repl_devs := [16 \<mapsto> \<lparr>rd_group_id = 16\<rparr>], proposed := [(16, demo_msg)]\<rparr>) \<and>
   create_pg demo_env demo_st demo_info {1, 2} \<noteq> Inr (Ready (Inl PG_NO_SPACE_LEFT), demo_st)"
proof -
  have a: "pg_map demo_st (pi_id demo_info) = None"
    by (simp add: demo_st_def)
  have b: "unat (env_most_avail_num_chunks demo_env (chunk_selector demo_st))
     * unat (env_get_chunk_size demo_env (chunk_selector demo_st)) < unat (pi_size demo_info)"
    by (simp add: demo_env_sel demo_info_sel demo_st_def)
  show ?thesis
    using a b demo_create_pg by simp
qed

text \<open>
  C2, amended. For every call of \<^verbatim>\<open>create_pg\<close> whose pg_id is not present: if the size
  is 0 the call fails with INVALID_ARG; if the size is not 0, the chunk size of the
  selector is not 0 and the floor of \<open>size / chunk_size\<close> exceeds
  \<^verbatim>\<open>most_avail_num_chunks\<close>, the call fails with NO_SPACE_LEFT. In both cases the state
  is unchanged: no replication group, no proposed entry, the PG map and the chunk
  selector as they were.
\<close>

theorem create_pg_precheck:
  assumes "pg_map st (pi_id pg_info) = None"
  shows "(pi_size pg_info = 0 \<longrightarrow>
            create_pg env st pg_info peers = Inr (Ready (Inl PG_INVALID_ARG), st)) \<and>
         (pi_size pg_info \<noteq> 0 \<and>
          env_get_chunk_size env (chunk_selector st) \<noteq> 0 \<and>
          unat (env_most_avail_num_chunks env (chunk_selector st))
            < unat (pi_size pg_info) div unat (env_get_chunk_size env (chunk_selector st)) \<longrightarrow>
            create_pg env st pg_info peers = Inr (Ready (Inl PG_NO_SPACE_LEFT), st))"
  using assms
  by (auto simp: create_pg_def Let_def word_less_nat_alt round_down_div unat_ucast_32_64)

theorem create_pg_precheck_witness:
  "pg_map demo_st (pi_id (demo_info\<lparr>pi_size := 0\<rparr>)) = None \<and>
   create_pg demo_env demo_st (demo_info\<lparr>pi_size := 0\<rparr>) {1, 2} =
     Inr (Ready (Inl PG_INVALID_ARG), demo_st) \<and>
   pg_map demo_st (pi_id (demo_info\<lparr>pi_size := 12\<rparr>)) = None \<and>
   pi_size (demo_info\<lparr>pi_size := 12\<rparr>) \<noteq> 0 \<and>
   env_get_chunk_size demo_env (chunk_selector demo_st) \<noteq> 0 \<and>
   unat (env_most_avail_num_chunks demo_env (chunk_selector demo_st))
     < unat (pi_size (demo_info\<lparr>pi_size := 12\<rparr>))
         div unat (env_get_chunk_size demo_env (chunk_selector demo_st)) \<and>
   create_pg demo_env demo_st (demo_info\<lparr>pi_size := 12\<rparr>) {1, 2} =
     Inr (Ready (Inl PG_NO_SPACE_LEFT), demo_st)"
proof -
  have a: "pg_map demo_st (pi_id (demo_info\<lparr>pi_size := 0\<rparr>)) = None"
    "pg_map demo_st (pi_id (demo_info\<lparr>pi_size := 12\<rparr>)) = None"
    by (simp_all add: demo_st_def)
  have b: "pi_size (demo_info\<lparr>pi_size := 12\<rparr>) \<noteq> 0"
    "env_get_chunk_size demo_env (chunk_selector demo_st) \<noteq> 0"
    "unat (env_most_avail_num_chunks demo_env (chunk_selector demo_st))
       < unat (pi_size (demo_info\<lparr>pi_size := 12\<rparr>))
           div unat (env_get_chunk_size demo_env (chunk_selector demo_st))"
    by (simp_all add: demo_env_sel demo_st_def)
  show ?thesis
    using a b
      create_pg_precheck [OF a(1), of demo_env "{1, 2}"]
      create_pg_precheck [OF a(2), of demo_env "{1, 2}"]
    by simp
qed

subsection \<open>Buffers\<close>

text \<open>
  What is written can be read back, and a write leaves everything before it alone; the
  same for \<^verbatim>\<open>memcpy\<close>, which succeeds when both ranges lie in their buffers.
\<close>

lemma write_bytes_length: "write_bytes d off bs = Inr d' \<Longrightarrow> length d' = length d"
  by (auto simp: write_bytes_def split: if_splits)

lemma write_bytes_read_same:
  "write_bytes d off bs = Inr d' \<Longrightarrow> read_bytes d' off (length bs) = Inr bs"
  by (auto simp: write_bytes_def read_bytes_def split: if_splits)

lemma write_bytes_read_before:
  "write_bytes d off bs = Inr d' \<Longrightarrow> p + n \<le> off \<Longrightarrow> read_bytes d' p n = read_bytes d p n"
  by (auto simp: write_bytes_def read_bytes_def drop_take min_def split: if_splits)

lemma read_bytes_length: "read_bytes d off n = Inr bs \<Longrightarrow> length bs = n"
  by (auto simp: read_bytes_def split: if_splits)

lemma memcpy_Inr:
  assumes "memcpy dst doff src soff n = Inr d'"
  shows "read_bytes d' doff n = read_bytes src soff n"
    and "length d' = length dst"
    and "p + k \<le> doff \<Longrightarrow> read_bytes d' p k = read_bytes dst p k"
proof -
  from assms obtain bs where r: "read_bytes src soff n = Inr bs" and w: "write_bytes dst doff bs = Inr d'"
    by (auto simp: memcpy_def bindF_eq_Inr)
  from r have l: "length bs = n" by (rule read_bytes_length)
  show "read_bytes d' doff n = read_bytes src soff n"
    using write_bytes_read_same [OF w] r l by simp
  show "length d' = length dst"
    using w by (rule write_bytes_length)
  show "read_bytes d' p k = read_bytes dst p k" if "p + k \<le> doff"
    using w that by (rule write_bytes_read_before)
qed

lemma memcpy_total:
  "soff + n \<le> length src \<Longrightarrow> doff + n \<le> length dst \<Longrightarrow> \<exists>d'. memcpy dst doff src soff n = Inr d'"
  by (simp add: memcpy_def read_bytes_def write_bytes_def)

text \<open>A 16-bit integer is read back from its two bytes.\<close>

lemma of_le_bytes_le_bytes_16: "of_le_bytes (le_bytes 2 c) = (c :: 16 word)"
proof -
  have "[0..<2] = [0, Suc 0]" by (simp add: upt_rec numeral_2_eq_2)
  then have "of_le_bytes (le_bytes 2 c) = (ucast (ucast c :: 8 word) OR push_bit 8 (ucast (ucast (drop_bit 8 c) :: 8 word)) :: 16 word)"
    by (simp add: le_bytes_def)
  also have "\<dots> = c"
    by (rule bit_eqI) (auto simp: bit_simps)
  finally show ?thesis .
qed

subsection \<open>Assignment of superblocks\<close>

text \<open>The assignment on the deployment: \<open>demo_sb\<close> assigned to the other superblock.\<close>

lemma demo_assign:
  "assign_superblk demo_other_sb demo_sb =
     Inr (demo_sb\<lparr>sb_active_blob_count := 5, sb_tombstone_blob_count := 6,
                  sb_total_occupied_blk_count := 7\<rparr>)"
  by code_simp

text \<open>
  C9. Whenever the trailers of both superblocks have room for the members and chunks
  that the source counts (otherwise \<^verbatim>\<open>memcpy\<close> leaves a buffer),
  \<^verbatim>\<open>pg_info_superblk::operator=\<close>, and with it \<^verbatim>\<open>copy()\<close>, returns a superblock whose
  id, num_members, num_chunks, pg_size, replica_set_uuid, index_table_uuid and
  blob_sequence_num are the source's, whose members array and chunk array hold the
  bytes of the source's arrays, and whose active_blob_count, tombstone_blob_count and
  total_occupied_blk_count are still the destination's: they are not copied.
\<close>

theorem assign_superblk_frame:
  assumes "sizeof_pg_members * unat (sb_num_members rhs)
             + sizeof_chunk_num_t * unat (sb_num_chunks rhs) \<le> length (sb_data rhs)"
    and "sizeof_pg_members * unat (sb_num_members rhs)
             + sizeof_chunk_num_t * unat (sb_num_chunks rhs) \<le> length (sb_data this)"
  shows "\<exists>r. assign_superblk this rhs = Inr r \<and> copy this rhs = Inr r \<and>
           sb_id r = sb_id rhs \<and>
           sb_num_members r = sb_num_members rhs \<and>
           sb_num_chunks r = sb_num_chunks rhs \<and>
           sb_pg_size r = sb_pg_size rhs \<and>
           sb_replica_set_uuid r = sb_replica_set_uuid rhs \<and>
           sb_index_table_uuid r = sb_index_table_uuid rhs \<and>
           sb_blob_sequence_num r = sb_blob_sequence_num rhs \<and>
           read_bytes (sb_data r) (get_pg_members r) (sizeof_pg_members * unat (sb_num_members rhs))
             = read_bytes (sb_data rhs) (get_pg_members rhs)
                 (sizeof_pg_members * unat (sb_num_members rhs)) \<and>
           read_bytes (sb_data r) (get_chunk_ids r) (sizeof_chunk_num_t * unat (sb_num_chunks rhs))
             = read_bytes (sb_data rhs) (get_chunk_ids rhs)
                 (sizeof_chunk_num_t * unat (sb_num_chunks rhs)) \<and>
           sb_active_blob_count r = sb_active_blob_count this \<and>
           sb_tombstone_blob_count r = sb_tombstone_blob_count this \<and>
           sb_total_occupied_blk_count r = sb_total_occupied_blk_count this"
proof -
  let ?m = "sizeof_pg_members * unat (sb_num_members rhs)"
  let ?c = "sizeof_chunk_num_t * unat (sb_num_chunks rhs)"
  have g: "get_chunk_ids rhs = ?m"
    by (simp add: get_chunk_ids_def mult.commute)
  from assms obtain d1 where d1: "memcpy (sb_data this) 0 (sb_data rhs) 0 ?m = Inr d1"
    using memcpy_total [of 0 ?m "sb_data rhs" 0 "sb_data this"] by auto
  have l1: "length d1 = length (sb_data this)"
    using d1 by (rule memcpy_Inr(2))
  from assms l1 obtain d2 where d2: "memcpy d1 ?m (sb_data rhs) ?m ?c = Inr d2"
    using memcpy_total [of ?m ?c "sb_data rhs" ?m d1] by auto
  define r where "r = this\<lparr>sb_id := sb_id rhs,
                     sb_num_members := sb_num_members rhs,
                     sb_num_chunks := sb_num_chunks rhs,
                     sb_pg_size := sb_pg_size rhs,
                     sb_replica_set_uuid := sb_replica_set_uuid rhs,
                     sb_index_table_uuid := sb_index_table_uuid rhs,
                     sb_blob_sequence_num := sb_blob_sequence_num rhs,
                     sb_data := d2\<rparr>"
  have a: "assign_superblk this rhs = Inr r"
    using d1 d2
    by (simp add: assign_superblk_def Let_def get_pg_members_def get_chunk_ids_def r_def mult.commute)
  have m: "read_bytes d2 0 ?m = read_bytes (sb_data rhs) 0 ?m"
    using memcpy_Inr(3) [OF d2, of 0 ?m] memcpy_Inr(1) [OF d1] by simp
  have c: "read_bytes d2 ?m ?c = read_bytes (sb_data rhs) ?m ?c"
    using memcpy_Inr(1) [OF d2] .
  have gr: "get_chunk_ids r = ?m" "get_pg_members r = 0" "get_pg_members rhs = 0"
    by (simp_all add: get_chunk_ids_def get_pg_members_def r_def mult.commute)
  show ?thesis
    using a m c g gr by (intro exI [of _ r]) (simp add: copy_def r_def)
qed

theorem assign_superblk_frame_witness:
  "sizeof_pg_members * unat (sb_num_members demo_sb)
     + sizeof_chunk_num_t * unat (sb_num_chunks demo_sb) \<le> length (sb_data demo_sb) \<and>
   sizeof_pg_members * unat (sb_num_members demo_sb)
     + sizeof_chunk_num_t * unat (sb_num_chunks demo_sb) \<le> length (sb_data demo_other_sb) \<and>
   (\<exists>r. assign_superblk demo_other_sb demo_sb = Inr r \<and>
        copy demo_other_sb demo_sb = Inr r \<and>
        sb_id r = 1 \<and> sb_num_members r = 2 \<and> sb_num_chunks r = 2 \<and> sb_pg_size r = 9 \<and>
        sb_replica_set_uuid r = 16 \<and> sb_index_table_uuid r = 32 \<and> sb_blob_sequence_num r = 0 \<and>
        sb_data r = sb_data demo_sb \<and>
        sb_active_blob_count r = 5 \<and> sb_tombstone_blob_count r = 6 \<and>
        sb_total_occupied_blk_count r = 7)"
proof -
  have a: "sizeof_pg_members * unat (sb_num_members demo_sb)
     + sizeof_chunk_num_t * unat (sb_num_chunks demo_sb) \<le> length (sb_data demo_sb)"
    by (simp add: demo_sb_def sizeof_pg_members_def sizeof_chunk_num_t_def max_name_len_def)
  have b: "sizeof_pg_members * unat (sb_num_members demo_sb)
     + sizeof_chunk_num_t * unat (sb_num_chunks demo_sb) \<le> length (sb_data demo_other_sb)"
    by (simp add: demo_sb_def demo_other_sb_def sizeof_pg_members_def sizeof_chunk_num_t_def
        max_name_len_def)
  from assign_superblk_frame [OF a b] obtain r where
    r: "assign_superblk demo_other_sb demo_sb = Inr r" "copy demo_other_sb demo_sb = Inr r"
    by blast
  from r(1) demo_assign have "r = demo_sb\<lparr>sb_active_blob_count := 5, sb_tombstone_blob_count := 6,
                  sb_total_occupied_blk_count := 7\<rparr>"
    by simp
  with r a b show ?thesis
    by (simp add: demo_sb_def)
qed

subsection \<open>The layout of the trailer\<close>

text \<open>
  The chunk ids that the constructor writes are the ones \<^verbatim>\<open>on_pg_meta_blk_found\<close>
  reads: a write of entry \<open>i\<close> leaves the entries before it alone.
\<close>

lemma chunk_at_data [simp]: "chunk_at (sb\<lparr>sb_data := d\<rparr>) i = chunk_at sb i"
  by (simp add: chunk_at_def get_chunk_ids_def)

lemma chunk_at_Suc: "chunk_at sb (Suc i) = chunk_at sb i + sizeof_chunk_num_t"
  by (simp add: chunk_at_def)

lemma write_chunk_ids_before:
  "write_chunk_ids sb i cs d = Inr d' \<Longrightarrow> p + n \<le> chunk_at sb i \<Longrightarrow>
   read_bytes d' p n = read_bytes d p n"
proof (induction cs arbitrary: i d)
  case Nil
  then show ?case by simp
next
  case (Cons c cs)
  from Cons.prems(1) obtain d1 where
    w: "write_bytes d (chunk_at sb i) (le_bytes sizeof_chunk_num_t c) = Inr d1"
    and r: "write_chunk_ids sb (Suc i) cs d1 = Inr d'"
    by (auto simp: bindF_eq_Inr)
  have "read_bytes d' p n = read_bytes d1 p n"
    using Cons.IH [OF r] Cons.prems(2) by (simp add: chunk_at_Suc)
  also have "\<dots> = read_bytes d p n"
    using write_bytes_read_before [OF w Cons.prems(2)] .
  finally show ?case .
qed

lemma write_then_read_chunk_ids:
  "write_chunk_ids sb i cs d = Inr d' \<Longrightarrow>
   read_chunk_ids (sb\<lparr>sb_data := d'\<rparr>) i (length cs) = Inr cs"
proof (induction cs arbitrary: i d)
  case Nil
  then show ?case by simp
next
  case (Cons c cs)
  from Cons.prems obtain d1 where
    w: "write_bytes d (chunk_at sb i) (le_bytes sizeof_chunk_num_t c) = Inr d1"
    and r: "write_chunk_ids sb (Suc i) cs d1 = Inr d'"
    by (auto simp: bindF_eq_Inr)
  have "read_bytes d' (chunk_at sb i) sizeof_chunk_num_t = read_bytes d1 (chunk_at sb i) sizeof_chunk_num_t"
    using write_chunk_ids_before [OF r, of "chunk_at sb i" sizeof_chunk_num_t]
    by (simp add: chunk_at_Suc)
  also have "\<dots> = Inr (le_bytes sizeof_chunk_num_t c)"
    using write_bytes_read_same [OF w] by simp
  finally have "read_chunk_id (sb\<lparr>sb_data := d'\<rparr>) i = Inr c"
    by (simp add: read_chunk_id_def sizeof_chunk_num_t_def of_le_bytes_le_bytes_16)
  with Cons.IH [OF r] show ?case by simp
qed

lemma read_chunk_ids_nth:
  "read_chunk_ids sb i n = Inr cs \<Longrightarrow> j < n \<Longrightarrow> read_chunk_id sb (i + j) = Inr (cs ! j)"
proof (induction n arbitrary: i cs j)
  case 0
  then show ?case by simp
next
  case (Suc n)
  from Suc.prems(1) obtain c cs' where
    c: "read_chunk_id sb i = Inr c" and r: "read_chunk_ids sb (Suc i) n = Inr cs'" and cs: "cs = c # cs'"
    by (auto simp: bindF_eq_Inr)
  show ?case
  proof (cases j)
    case 0
    with c cs show ?thesis by simp
  next
    case (Suc k)
    with Suc.prems(2) have "k < n" by simp
    from Suc.IH [OF r this] Suc cs show ?thesis by simp
  qed
qed

lemma HS_PG_create_chunks:
  assumes "HS_PG_create env info rdev index_table (Some chunk_ids) = Inr pg"
    and "length chunk_ids < 2 ^ 32"
  shows "unat (sb_num_chunks (hs_pg_sb pg)) = length chunk_ids"
    and "read_chunk_ids (hs_pg_sb pg) 0 (unat (sb_num_chunks (hs_pg_sb pg))) = Inr chunk_ids"
proof -
  define sb1 where "sb1 = new_superblk env info rdev index_table (word_of_nat (length chunk_ids))"
  have n: "unat (word_of_nat (length chunk_ids) :: 32 word) = length chunk_ids"
    using assms(2) by (rule unat_of_nat_32)
  have nc: "sb_num_chunks sb1 = word_of_nat (length chunk_ids)"
    by (simp add: sb1_def new_superblk_def)
  have "HS_PG_create env info rdev index_table (Some chunk_ids) =
     bindF (write_members sb1 0 (pi_members info) (sb_data sb1)) (\<lambda>d1.
     bindF (write_chunk_ids sb1 0 chunk_ids d1) (\<lambda>d2.
       Inr \<lparr>hs_pg_info = info, hs_durable_entities = DurableEntities_init,
            hs_pg_sb = sb1\<lparr>sb_data := d2\<rparr>, hs_repl_dev = rdev,
            hs_index_table = Some index_table\<rparr>))"
    by (simp add: HS_PG_create_def Let_def sb1_def n)
  with assms(1) obtain d1 d2 where
    w: "write_chunk_ids sb1 0 chunk_ids d1 = Inr d2"
    and pg: "hs_pg_sb pg = sb1\<lparr>sb_data := d2\<rparr>"
    by (auto simp: bindF_eq_Inr)
  show "unat (sb_num_chunks (hs_pg_sb pg)) = length chunk_ids"
    using pg nc n by simp
  show "read_chunk_ids (hs_pg_sb pg) 0 (unat (sb_num_chunks (hs_pg_sb pg))) = Inr chunk_ids"
    using write_then_read_chunk_ids [OF w] pg nc n by simp
qed

text \<open>The value of \<^verbatim>\<open>size()\<close> as a number: the sum, reduced to 32 bits.\<close>

lemma unat_size_superblk:
  "unat (size_superblk sb) =
     (sizeof_pg_info_superblk - 1 + unat (sb_num_members sb) * sizeof_pg_members
        + unat (sb_num_chunks sb) * sizeof_chunk_num_t) mod 2 ^ 32"
proof -
  define N where "N = 82 + unat (sb_num_members sb) * 52 + unat (sb_num_chunks sb) * 2"
  have "unat (sb_num_members sb) < 2 ^ 32" "unat (sb_num_chunks sb) < 2 ^ 32"
    using unsigned_less [of "sb_num_members sb"] unsigned_less [of "sb_num_chunks sb"] by simp_all
  then have b: "N < 2 ^ 64"
    by (simp add: N_def)
  have "(word_of_nat sizeof_pg_info_superblk - 1
            + ucast (sb_num_members sb) * word_of_nat sizeof_pg_members
            + ucast (sb_num_chunks sb) * word_of_nat sizeof_chunk_num_t :: 64 word)
        = word_of_nat N"
    by (simp add: N_def sizeof_pg_info_superblk_def sizeof_pg_members_def sizeof_chunk_num_t_def
        max_name_len_def)
  then have "size_superblk sb = ucast (word_of_nat N :: 64 word)"
    by (simp only: size_superblk_def)
  then have "unat (size_superblk sb) = take_bit 32 (take_bit 64 N)"
    by (simp add: unsigned_of_nat unsigned_ucast_eq unat_of_nat)
  also have "take_bit 64 N = N"
    using b by (simp add: take_bit_nat_eq_self)
  finally show ?thesis
    by (simp add: N_def take_bit_eq_mod sizeof_pg_info_superblk_def sizeof_pg_members_def
        sizeof_chunk_num_t_def max_name_len_def)
qed

text \<open>
  C7, as the claim states it, fails for \<^verbatim>\<open>size()\<close>: the result is a \<^verbatim>\<open>uint32_t\<close>. For
  a superblock that counts \<open>2 ^ 27\<close> members the sum is 6979321938, and \<^verbatim>\<open>size()\<close>
  returns 2684354642.
\<close>

theorem size_superblk_wraps:
  "unat (size_superblk demo_huge_sb) = 2684354642 \<and>
   sizeof_pg_info_superblk - 1 + unat (sb_num_members demo_huge_sb) * sizeof_pg_members
     + unat (sb_num_chunks demo_huge_sb) * sizeof_chunk_num_t = 6979321938 \<and>
   unat (size_superblk demo_huge_sb) \<noteq>
     sizeof_pg_info_superblk - 1 + unat (sb_num_members demo_huge_sb) * sizeof_pg_members
       + unat (sb_num_chunks demo_huge_sb) * sizeof_chunk_num_t"
  by (simp add: unat_size_superblk demo_huge_sb_def sizeof_pg_info_superblk_def
      sizeof_pg_members_def sizeof_chunk_num_t_def max_name_len_def)

text \<open>
  C7, amended. The trailer is addressed by counts. For every superblock,
  \<^verbatim>\<open>get_pg_members()\<close> is offset 0 of \<^verbatim>\<open>data\<close> and \<^verbatim>\<open>get_chunk_ids()\<close> is offset
  \<open>num_members * sizeof(pg_members)\<close>, with \<open>sizeof(pg_members) = 52\<close>,
  \<open>sizeof(chunk_num_t) = 2\<close> and \<open>sizeof(pg_info_superblk) = 83\<close>. \<^verbatim>\<open>size()\<close> is
  \<open>sizeof(pg_info_superblk) - 1 + num_members * sizeof(pg_members) + num_chunks *
  sizeof(chunk_num_t)\<close> reduced modulo \<open>2 ^ 32\<close>, hence that sum whenever it is below
  \<open>2 ^ 32\<close>. And entry \<open>i\<close> of the chunk array is the physical chunk of virtual chunk
  \<open>i\<close>: in the superblock that the constructor builds from a PG's chunk list (shorter
  than \<open>2 ^ 32\<close>), \<open>num_chunks\<close> is the length of the list, entry \<open>i\<close> lies
  \<open>i * sizeof(chunk_num_t)\<close> bytes behind \<^verbatim>\<open>get_chunk_ids()\<close> and reads as element
  \<open>i\<close> of the list, and recovery reads the whole list back.
\<close>

theorem superblk_trailer_layout:
  "get_pg_members sb = 0 \<and>
   get_chunk_ids sb = unat (sb_num_members sb) * sizeof_pg_members \<and>
   sizeof_pg_info_superblk = 83 \<and> sizeof_pg_members = 52 \<and> sizeof_chunk_num_t = 2 \<and>
   unat (size_superblk sb) =
     (sizeof_pg_info_superblk - 1 + unat (sb_num_members sb) * sizeof_pg_members
        + unat (sb_num_chunks sb) * sizeof_chunk_num_t) mod 2 ^ 32 \<and>
   (sizeof_pg_info_superblk - 1 + unat (sb_num_members sb) * sizeof_pg_members
        + unat (sb_num_chunks sb) * sizeof_chunk_num_t < 2 ^ 32 \<longrightarrow>
    unat (size_superblk sb) =
      sizeof_pg_info_superblk - 1 + unat (sb_num_members sb) * sizeof_pg_members
        + unat (sb_num_chunks sb) * sizeof_chunk_num_t) \<and>
   (\<forall>pg. HS_PG_create env info rdev index_table (Some chunk_ids) = Inr pg \<and>
         length chunk_ids < 2 ^ 32 \<longrightarrow>
      unat (sb_num_chunks (hs_pg_sb pg)) = length chunk_ids \<and>
      read_chunk_ids (hs_pg_sb pg) 0 (unat (sb_num_chunks (hs_pg_sb pg))) = Inr chunk_ids \<and>
      (\<forall>i < length chunk_ids.
         chunk_at (hs_pg_sb pg) i = get_chunk_ids (hs_pg_sb pg) + i * sizeof_chunk_num_t \<and>
         read_chunk_id (hs_pg_sb pg) i = Inr (chunk_ids ! i)))"
proof -
  have "read_chunk_id (hs_pg_sb pg) i = Inr (chunk_ids ! i)"
    if "HS_PG_create env info rdev index_table (Some chunk_ids) = Inr pg"
      and "length chunk_ids < 2 ^ 32" and "i < length chunk_ids" for pg i
    using read_chunk_ids_nth [OF HS_PG_create_chunks(2) [OF that(1,2)], of i]
      HS_PG_create_chunks(1) [OF that(1,2)] that(3) by simp
  then show ?thesis
    using HS_PG_create_chunks [of env info rdev index_table chunk_ids]
    by (auto simp: unat_size_superblk get_pg_members_def get_chunk_ids_def chunk_at_def
        sizeof_pg_info_superblk_def sizeof_pg_members_def sizeof_chunk_num_t_def max_name_len_def)
qed

theorem superblk_trailer_layout_witness:
  "HS_PG_create demo_env demo_info \<lparr>rd_group_id = 16\<rparr> \<lparr>it_uuid = 32\<rparr> (Some [7, 8]) = Inr demo_pg \<and>
   length [7 :: chunk_num_t, 8] < 2 ^ 32 \<and>
   hs_pg_sb demo_pg = demo_sb \<and>
   get_pg_members demo_sb = 0 \<and>
   get_chunk_ids demo_sb = 104 \<and>
   sizeof_pg_info_superblk - 1 + unat (sb_num_members demo_sb) * sizeof_pg_members
     + unat (sb_num_chunks demo_sb) * sizeof_chunk_num_t < 2 ^ 32 \<and>
   unat (size_superblk demo_sb) = 190 \<and>
   read_chunk_ids demo_sb 0 2 = Inr [7, 8] \<and>
   read_chunk_id demo_sb 0 = Inr 7 \<and>
   read_chunk_id demo_sb 1 = Inr 8"
proof -
  note T = superblk_trailer_layout [of demo_sb demo_env demo_info "\<lparr>rd_group_id = 16\<rparr>"
      "\<lparr>it_uuid = 32\<rparr>" "[7, 8]"]
  have sb: "hs_pg_sb demo_pg = demo_sb"
    by (simp add: demo_pg_def)
  have fit: "sizeof_pg_info_superblk - 1 + unat (sb_num_members demo_sb) * sizeof_pg_members
     + unat (sb_num_chunks demo_sb) * sizeof_chunk_num_t < 2 ^ 32"
    by (simp add: demo_sb_def sizeof_pg_info_superblk_def sizeof_pg_members_def
        sizeof_chunk_num_t_def max_name_len_def)
  have len: "length [7 :: chunk_num_t, 8] < 2 ^ 32"
    by simp
  from T have sz: "unat (size_superblk demo_sb) =
      sizeof_pg_info_superblk - 1 + unat (sb_num_members demo_sb) * sizeof_pg_members
        + unat (sb_num_chunks demo_sb) * sizeof_chunk_num_t"
    using fit by blast
  from T demo_HS_PG_create len have ch:
    "read_chunk_ids (hs_pg_sb demo_pg) 0 (unat (sb_num_chunks (hs_pg_sb demo_pg))) = Inr [7, 8]"
    "\<forall>i < length [7 :: chunk_num_t, 8]. read_chunk_id (hs_pg_sb demo_pg) i = Inr ([7, 8] ! i)"
    by blast+
  have "read_chunk_id (hs_pg_sb demo_pg) 0 = Inr 7" "read_chunk_id (hs_pg_sb demo_pg) 1 = Inr 8"
    using ch(2) [rule_format, of 0] ch(2) [rule_format, of 1] by simp_all
  with T sz ch(1) demo_HS_PG_create sb fit show ?thesis
    by (simp add: demo_sb_def sizeof_pg_info_superblk_def sizeof_pg_members_def
        sizeof_chunk_num_t_def max_name_len_def)
qed

subsection \<open>The JSON round trip\<close>

text \<open>
  \<^verbatim>\<open>serialize_pg_info\<close> always builds the document \<open>pg_info_json\<close>; reading that
  document gives the \<^verbatim>\<open>PGInfo\<close> back when the uuid parser inverts the uuid printer on
  the uuids involved: emplacing the members of a set in their order rebuilds the set.
\<close>

lemma member_to_json_eq: "member_to_json env m = Inr (member_json env m)"
  by (simp add: member_to_json_def member_json_def)

lemma foldF_push_back:
  "foldF (\<lambda>member members_j. push_back members_j (member_json env member)) ms (JArray xs)
     = Inr (JArray (xs @ map (member_json env) ms))"
  by (induction ms arbitrary: xs) simp_all

lemma members_to_json_eq: "members_to_json env ms = Inr (members_json env ms)"
  by (cases ms) (simp_all add: members_to_json_def members_json_def member_to_json_eq foldF_push_back)

lemma pg_info_to_json_eq: "pg_info_to_json env info = Inr (pg_info_json env info)"
  by (simp add: pg_info_to_json_def pg_info_json_def json_assign2_def members_to_json_eq)

lemma member_of_json_eq:
  assumes "env_string_generator env (env_to_string env (pm_id m)) = Inr (pm_id m)"
  shows "member_of_json env (member_json env m) = Inr m"
  using assms by (simp add: member_of_json_def member_json_def PGMember_of_id_def)

lemma insort_key_last:
  "\<forall>a \<in> set acc. f a < f m \<Longrightarrow> insort_key f m acc = acc @ [m]"
  by (induction acc) auto

lemma fold_emplace_sorted:
  "sorted_wrt (<) (map (\<lambda>m. key (pm_id m)) (acc @ ms)) \<Longrightarrow> fold (emplace key) ms acc = acc @ ms"
proof (induction ms arbitrary: acc)
  case Nil
  then show ?case by simp
next
  case (Cons m ms)
  from Cons.prems have lt: "\<forall>a \<in> set acc. key (pm_id a) < key (pm_id m)"
    by (auto simp: sorted_wrt_append)
  then have notin: "key (pm_id m) \<notin> (\<lambda>x. key (pm_id x)) ` set acc"
    by auto
  have step: "emplace key m acc = acc @ [m]"
    using lt notin by (simp add: emplace_def insort_insert_key_def insort_key_last)
  have "fold (emplace key) ms (acc @ [m]) = (acc @ [m]) @ ms"
    using Cons.prems by (intro Cons.IH) simp
  with step show ?case by simp
qed

lemma foldF_members_of_json:
  assumes "\<forall>m \<in> set ms. env_string_generator env (env_to_string env (pm_id m)) = Inr (pm_id m)"
  shows "foldF (\<lambda>m pg_info.
              bindF (member_of_json env m) (\<lambda>member.
              Inr (pg_info\<lparr>pi_members := emplace (env_member_key env) member (pi_members pg_info)\<rparr>)))
           (map (member_json env) ms) pg0
         = Inr (pg0\<lparr>pi_members := fold (emplace (env_member_key env)) ms (pi_members pg0)\<rparr>)"
  using assms by (induction ms arbitrary: pg0) (simp_all add: member_of_json_eq)

lemma json_items_members_json: "json_items (members_json env ms) = map (member_json env) ms"
  by (simp add: members_json_def)

lemma pg_info_of_json_eq:
  assumes ok: "MemberSet_ok (env_member_key env) (pi_members info)"
    and ru: "env_string_generator env (env_to_string env (pi_replica_set_uuid info)) = Inr (pi_replica_set_uuid info)"
    and mu: "\<forall>m \<in> set (pi_members info). env_string_generator env (env_to_string env (pm_id m)) = Inr (pm_id m)"
  shows "pg_info_of_json env (pg_info_json env info) = Inr info"
proof -
  have "fold (emplace (env_member_key env)) (pi_members info) [] = pi_members info"
    using ok fold_emplace_sorted [of "env_member_key env" "[]" "pi_members info"]
    by (simp add: MemberSet_ok_def)
  then show ?thesis
    using ru
    by (simp add: pg_info_of_json_def pg_info_json_def json_items_members_json
        foldF_members_of_json [OF mu] PGInfo_of_id_def)
qed

lemma demo_pg_info_to_json: "pg_info_to_json demo_env demo_info = Inr demo_json"
  by (simp add: pg_info_to_json_eq pg_info_json_def members_json_def member_json_def demo_to_string
      demo_info_def demo_json_def)

text \<open>
  C10. Let the members of a \<^verbatim>\<open>PGInfo\<close> be a set (increasing keys in iteration order),
  let the uuid parser read back what the uuid printer writes for the replica-set uuid
  and for the id of every member, and let the JSON document survive its encoding: the
  library dumps it to a text and parses that text to the same document. Then
  \<^verbatim>\<open>serialize_pg_info\<close> returns that text, and \<^verbatim>\<open>deserialize_pg_info\<close> of it returns
  a \<^verbatim>\<open>PGInfo\<close> with the same id, size, chunk_size, replica_set_uuid and members (each
  with its id, name and priority).
\<close>

theorem pg_info_round_trip:
  assumes "MemberSet_ok (env_member_key env) (pi_members info)"
    and "env_string_generator env (env_to_string env (pi_replica_set_uuid info)) =
           Inr (pi_replica_set_uuid info)"
    and "\<forall>m \<in> set (pi_members info).
           env_string_generator env (env_to_string env (pm_id m)) = Inr (pm_id m)"
    and "pg_info_to_json env info = Inr j"
    and "env_dump env j = Inr s"
    and "env_parse env s = Inr j"
  shows "serialize_pg_info env info = Inr s \<and>
         (\<exists>info'. deserialize_pg_info env s = Inr info' \<and>
            pi_id info' = pi_id info \<and>
            pi_size info' = pi_size info \<and>
            pi_chunk_size info' = pi_chunk_size info \<and>
            pi_replica_set_uuid info' = pi_replica_set_uuid info \<and>
            pi_members info' = pi_members info)"
  using assms pg_info_of_json_eq [of env info]
  by (simp add: serialize_pg_info_def deserialize_pg_info_def pg_info_to_json_eq)

theorem pg_info_round_trip_witness:
  "MemberSet_ok (env_member_key demo_env) (pi_members demo_info) \<and>
   env_string_generator demo_env (env_to_string demo_env (pi_replica_set_uuid demo_info)) =
     Inr (pi_replica_set_uuid demo_info) \<and>
   (\<exists>m1 m2. pi_members demo_info = [m1, m2] \<and>
      env_string_generator demo_env (env_to_string demo_env (pm_id m1)) = Inr (pm_id m1) \<and>
      env_string_generator demo_env (env_to_string demo_env (pm_id m2)) = Inr (pm_id m2)) \<and>
   pg_info_to_json demo_env demo_info = Inr demo_json \<and>
   env_dump demo_env demo_json = Inr demo_text \<and>
   env_parse demo_env demo_text = Inr demo_json \<and>
   serialize_pg_info demo_env demo_info = Inr demo_text \<and>
   deserialize_pg_info demo_env demo_text = Inr demo_info"
proof -
  have a: "MemberSet_ok (env_member_key demo_env) (pi_members demo_info)"
    by (simp add: MemberSet_ok_def demo_env_sel demo_info_def)
  have gen: "env_string_generator demo_env ''00000000-0000-0000-0000-000000000001'' = Inr 1"
    "env_string_generator demo_env ''00000000-0000-0000-0000-000000000002'' = Inr 2"
    "env_string_generator demo_env ''00000000-0000-0000-0000-000000000010'' = Inr 16"
    by (simp_all add: demo_env_def demo_uuid_text_def)
  have b: "env_string_generator demo_env (env_to_string demo_env (pi_replica_set_uuid demo_info)) =
     Inr (pi_replica_set_uuid demo_info)"
    by (simp add: demo_info_sel demo_to_string gen)
  have c: "\<forall>m \<in> set (pi_members demo_info).
     env_string_generator demo_env (env_to_string demo_env (pm_id m)) = Inr (pm_id m)"
    by (simp add: demo_info_def demo_to_string gen)
  have d: "env_dump demo_env demo_json = Inr demo_text" "env_parse demo_env demo_text = Inr demo_json"
    by (simp_all add: demo_env_def)
  from pg_info_round_trip [OF a b c demo_pg_info_to_json d]
  obtain info' where r: "serialize_pg_info demo_env demo_info = Inr demo_text"
    "deserialize_pg_info demo_env demo_text = Inr info'"
    "pi_id info' = pi_id demo_info" "pi_size info' = pi_size demo_info"
    "pi_chunk_size info' = pi_chunk_size demo_info"
    "pi_replica_set_uuid info' = pi_replica_set_uuid demo_info"
    "pi_members info' = pi_members demo_info"
    by blast
  from r(3-7) have "info' = demo_info" by simp
  with r(1,2) a b c d demo_pg_info_to_json show ?thesis
    by (simp add: demo_info_def)
qed

subsection \<open>Recovery of a PG\<close>

text \<open>
  What the recovery constructor takes from the superblock, and what the scenario's
  superblock reads as.
\<close>

lemma HS_PG_recover_Inr:
  assumes "HS_PG_recover env sb v = Inr hs_pg"
  shows "pi_id (hs_pg_info hs_pg) = sb_id sb"
    and "pi_replica_set_uuid (hs_pg_info hs_pg) = sb_replica_set_uuid sb"
    and "hs_repl_dev hs_pg = v"
    and "hs_pg_sb hs_pg = sb"
  using assms
  by (auto simp: HS_PG_recover_def pg_info_from_sb_def bindF_eq_Inr PGInfo_of_id_def)

lemma demo_read_chunk_ids: "read_chunk_ids demo_sb 0 2 = Inr [7, 8]"
  by code_simp

lemma demo_HS_PG_recover:
  "HS_PG_recover demo_env demo_sb \<lparr>rd_group_id = 16\<rparr> = Inr demo_recovered_pg"
  by code_simp

lemma demo_sb_sel:
  "sb_id demo_sb = 1" "sb_num_members demo_sb = 2" "sb_num_chunks demo_sb = 2"
  "sb_replica_set_uuid demo_sb = 16" "sb_index_table_uuid demo_sb = 32"
  by (simp_all add: demo_sb_def)

text \<open>
  C8, as the claim states it, fails: when the replication service has no device for
  the superblock's replica set, the handler logs and returns before it looks for the
  index table. No assertion fires although the uuid of the index table is not in the
  map, and nothing is recovered.
\<close>

theorem on_pg_meta_blk_found_skips_without_repl_dev:
  "index_table_pg_map demo_st (env_to_string demo_env (sb_index_table_uuid demo_sb)) = None \<and>
   on_pg_meta_blk_found demo_env demo_st demo_sb = Inr demo_st"
  by (simp add: on_pg_meta_blk_found_def demo_st_def demo_sb_sel)

text \<open>
  C8, amended. When \<^verbatim>\<open>on_pg_meta_blk_found\<close> processes a PG superblock:
  \<^item> if the replication service has no device for its \<^verbatim>\<open>replica_set_uuid\<close>, the
    handler returns with the state unchanged;
  \<^item> if it has one and the \<^verbatim>\<open>index_table_uuid\<close> is not in the map of recovered index
    tables, the handler never returns normally, and when the chunk array and the
    members of the superblock are readable and the chunk selector restores the chunks,
    it stops at the assertion "IndexTable should be recovered before PG";
  \<^item> if it has one whose group id is that uuid, the index table was recovered first,
    the superblock is readable and the chunk selector restores the chunks, the handler
    attaches the table to the recovered \<^verbatim>\<open>HS_PG\<close>, records the pg_id in the entry of the
    map, leaves the chunks restored in the chunk selector and adds the PG to the PG
    map, unless the map has a PG of that id already, which it keeps.
\<close>

theorem on_pg_meta_blk_found_recovery:
  "(repl_devs st (sb_replica_set_uuid pg_sb) = None \<longrightarrow>
      on_pg_meta_blk_found env st pg_sb = Inr st) \<and>
   (\<forall>v. repl_devs st (sb_replica_set_uuid pg_sb) = Some v \<and>
        index_table_pg_map st (env_to_string env (sb_index_table_uuid pg_sb)) = None \<longrightarrow>
      (\<exists>f. on_pg_meta_blk_found env st pg_sb = Inl f) \<and>
      (\<forall>p_chunk_ids cs1 hs_pg.
         read_chunk_ids pg_sb 0 (unat (sb_num_chunks pg_sb)) = Inr p_chunk_ids \<and>
         env_recover_pg_chunks env (chunk_selector st) (sb_id pg_sb) p_chunk_ids = (True, cs1) \<and>
         HS_PG_recover env pg_sb v = Inr hs_pg \<longrightarrow>
         on_pg_meta_blk_found env st pg_sb =
           Inl (AssertFailed ''IndexTable should be recovered before PG''))) \<and>
   (\<forall>v it p_chunk_ids cs1 hs_pg.
      repl_devs st (sb_replica_set_uuid pg_sb) = Some v \<and>
      rd_group_id v = sb_replica_set_uuid pg_sb \<and>
      index_table_pg_map st (env_to_string env (sb_index_table_uuid pg_sb)) = Some it \<and>
      read_chunk_ids pg_sb 0 (unat (sb_num_chunks pg_sb)) = Inr p_chunk_ids \<and>
      env_recover_pg_chunks env (chunk_selector st) (sb_id pg_sb) p_chunk_ids = (True, cs1) \<and>
      HS_PG_recover env pg_sb v = Inr hs_pg \<longrightarrow>
      on_pg_meta_blk_found env st pg_sb =
        Inr (st\<lparr>chunk_selector := cs1,
                index_table_pg_map :=
                  (index_table_pg_map st)
                    (env_to_string env (sb_index_table_uuid pg_sb) \<mapsto> it\<lparr>pit_pg_id := sb_id pg_sb\<rparr>),
                pg_map :=
                  (if pg_map st (sb_id pg_sb) = None
                   then (pg_map st)
                          (sb_id pg_sb \<mapsto> hs_pg\<lparr>hs_index_table := Some (pit_index_table it)\<rparr>)
                   else pg_map st)\<rparr>))"
proof (intro conjI allI impI)
  assume "repl_devs st (sb_replica_set_uuid pg_sb) = None"
  then show "on_pg_meta_blk_found env st pg_sb = Inr st"
    by (simp add: on_pg_meta_blk_found_def)
next
  fix v
  assume "repl_devs st (sb_replica_set_uuid pg_sb) = Some v \<and>
        index_table_pg_map st (env_to_string env (sb_index_table_uuid pg_sb)) = None"
  then show "\<exists>f. on_pg_meta_blk_found env st pg_sb = Inl f"
    by (auto simp: on_pg_meta_blk_found_def Let_def bindF_def split: sum.splits prod.splits)
next
  fix v p_chunk_ids cs1 hs_pg
  assume "repl_devs st (sb_replica_set_uuid pg_sb) = Some v \<and>
        index_table_pg_map st (env_to_string env (sb_index_table_uuid pg_sb)) = None"
    and "read_chunk_ids pg_sb 0 (unat (sb_num_chunks pg_sb)) = Inr p_chunk_ids \<and>
         env_recover_pg_chunks env (chunk_selector st) (sb_id pg_sb) p_chunk_ids = (True, cs1) \<and>
         HS_PG_recover env pg_sb v = Inr hs_pg"
  then show "on_pg_meta_blk_found env st pg_sb =
           Inl (AssertFailed ''IndexTable should be recovered before PG'')"
    by (simp add: on_pg_meta_blk_found_def)
next
  fix v it p_chunk_ids cs1 hs_pg
  assume a: "repl_devs st (sb_replica_set_uuid pg_sb) = Some v \<and>
      rd_group_id v = sb_replica_set_uuid pg_sb \<and>
      index_table_pg_map st (env_to_string env (sb_index_table_uuid pg_sb)) = Some it \<and>
      read_chunk_ids pg_sb 0 (unat (sb_num_chunks pg_sb)) = Inr p_chunk_ids \<and>
      env_recover_pg_chunks env (chunk_selector st) (sb_id pg_sb) p_chunk_ids = (True, cs1) \<and>
      HS_PG_recover env pg_sb v = Inr hs_pg"
  then have r: "HS_PG_recover env pg_sb v = Inr hs_pg" by simp
  show "on_pg_meta_blk_found env st pg_sb =
        Inr (st\<lparr>chunk_selector := cs1,
                index_table_pg_map :=
                  (index_table_pg_map st)
                    (env_to_string env (sb_index_table_uuid pg_sb) \<mapsto> it\<lparr>pit_pg_id := sb_id pg_sb\<rparr>),
                pg_map :=
                  (if pg_map st (sb_id pg_sb) = None
                   then (pg_map st)
                          (sb_id pg_sb \<mapsto> hs_pg\<lparr>hs_index_table := Some (pit_index_table it)\<rparr>)
                   else pg_map st)\<rparr>)"
    using a HS_PG_recover_Inr [OF r]
    by (auto simp: on_pg_meta_blk_found_def add_pg_to_map_def Let_def)
qed

theorem on_pg_meta_blk_found_recovery_witness:
  "repl_devs demo_restart (sb_replica_set_uuid demo_sb) = Some \<lparr>rd_group_id = 16\<rparr> \<and>
   rd_group_id \<lparr>rd_group_id = 16\<rparr> = sb_replica_set_uuid demo_sb \<and>
   index_table_pg_map demo_restart (env_to_string demo_env (sb_index_table_uuid demo_sb)) =
     Some \<lparr>pit_pg_id = 0, pit_index_table = \<lparr>it_uuid = 32\<rparr>\<rparr> \<and>
   read_chunk_ids demo_sb 0 (unat (sb_num_chunks demo_sb)) = Inr [7, 8] \<and>
   env_recover_pg_chunks demo_env (chunk_selector demo_restart) (sb_id demo_sb) [7, 8] =
     (True, \<lparr>ds_chunk_size = 4, ds_free = [], ds_pg_chunks = [(1, [7, 8])]\<rparr>) \<and>
   HS_PG_recover demo_env demo_sb \<lparr>rd_group_id = 16\<rparr> = Inr demo_recovered_pg \<and>
   on_pg_meta_blk_found demo_env demo_restart demo_sb = Inr demo_recovered \<and>
   repl_devs demo_no_index (sb_replica_set_uuid demo_sb) = Some \<lparr>rd_group_id = 16\<rparr> \<and>
   index_table_pg_map demo_no_index (env_to_string demo_env (sb_index_table_uuid demo_sb)) = None \<and>
   on_pg_meta_blk_found demo_env demo_no_index demo_sb =
     Inl (AssertFailed ''IndexTable should be recovered before PG'') \<and>
   repl_devs demo_st (sb_replica_set_uuid demo_sb) = None \<and>
   on_pg_meta_blk_found demo_env demo_st demo_sb = Inr demo_st"
proof -
  note T = on_pg_meta_blk_found_recovery
  have h1: "repl_devs demo_restart (sb_replica_set_uuid demo_sb) = Some \<lparr>rd_group_id = 16\<rparr>"
    and h1': "repl_devs demo_no_index (sb_replica_set_uuid demo_sb) = Some \<lparr>rd_group_id = 16\<rparr>"
    and h1'': "repl_devs demo_st (sb_replica_set_uuid demo_sb) = None"
    by (simp_all add: demo_restart_def demo_no_index_def demo_st_def demo_sb_sel)
  have h2: "rd_group_id \<lparr>rd_group_id = 16\<rparr> = sb_replica_set_uuid demo_sb"
    by (simp add: demo_sb_sel)
  have h3: "index_table_pg_map demo_restart (env_to_string demo_env (sb_index_table_uuid demo_sb)) =
     Some \<lparr>pit_pg_id = 0, pit_index_table = \<lparr>it_uuid = 32\<rparr>\<rparr>"
    and h3': "index_table_pg_map demo_no_index (env_to_string demo_env (sb_index_table_uuid demo_sb)) = None"
    by (simp_all add: demo_restart_def demo_no_index_def demo_st_def demo_sb_sel demo_to_string)
  have h4: "read_chunk_ids demo_sb 0 (unat (sb_num_chunks demo_sb)) = Inr [7, 8]"
    using demo_read_chunk_ids by (simp add: demo_sb_sel)
  have h5: "env_recover_pg_chunks demo_env (chunk_selector demo_restart) (sb_id demo_sb) [7, 8] =
     (True, \<lparr>ds_chunk_size = 4, ds_free = [], ds_pg_chunks = [(1, [7, 8])]\<rparr>)"
    and h5': "env_recover_pg_chunks demo_env (chunk_selector demo_no_index) (sb_id demo_sb) [7, 8] =
     (True, \<lparr>ds_chunk_size = 4, ds_free = [], ds_pg_chunks = [(1, [7, 8])]\<rparr>)"
    by (simp_all add: demo_env_sel demo_recover_pg_chunks_def demo_restart_def demo_no_index_def
        demo_st_def demo_sb_sel)
  note h6 = demo_HS_PG_recover
  have a: "on_pg_meta_blk_found demo_env demo_restart demo_sb = Inr demo_recovered"
    using T [of demo_restart demo_sb demo_env, THEN conjunct2, THEN conjunct2, rule_format,
          OF conjI [OF h1 conjI [OF h2 conjI [OF h3 conjI [OF h4 conjI [OF h5 h6]]]]]]
    by (simp add: demo_recovered_def demo_restart_def demo_no_index_def demo_st_def demo_sb_sel
        demo_to_string)
  have b: "on_pg_meta_blk_found demo_env demo_no_index demo_sb =
     Inl (AssertFailed ''IndexTable should be recovered before PG'')"
    using T [of demo_no_index demo_sb demo_env, THEN conjunct2, THEN conjunct1, rule_format,
          OF conjI [OF h1' h3'], THEN conjunct2, rule_format, OF conjI [OF h4 conjI [OF h5' h6]]] .
  have c: "on_pg_meta_blk_found demo_env demo_st demo_sb = Inr demo_st"
    using T [of demo_st demo_sb demo_env, THEN conjunct1, rule_format, OF h1''] .
  show ?thesis
    using h1 h2 h3 h4 h5 h6 a h1' h3' b h1'' c by simp
qed

end
